theory Spec2Isabelle
  imports Complex_Main "HOL-Library.AList" "HOL-Library.Multiset" "HOL-Library.Sublist"
begin

section \<open>Data model of the Bayesian network (Motor\_de\_inferencia.py)\<close>

text \<open>
  Variable names and cell values are strings. A cell of a table read by pandas is either
  a value or missing (NaN): \<open>None\<close> is the missing cell. A comparison of a missing cell
  with any value is false, as \<open>df[col] == x\<close> is in pandas.

  Probabilities are Python floats; they are idealised here as real numbers, so every
  statement about products, sums and the normalisation is a statement of exact
  arithmetic. The tests the code makes on them (\<open>== 0\<close>, \<open>> 0\<close>) are the same tests
  on reals.
\<close>

type_synonym variable = string
type_synonym valor = string
type_synonym celda = "valor option"

text \<open>
  A Python dict keeps its keys in insertion order; assigning to an existing key keeps the
  key's position, assigning to a new key appends it. That is \<open>AList.update\<close> on an
  association list; \<open>map_of\<close> is the lookup.
\<close>

type_synonym asignacion = "(variable \<times> valor) list"

text \<open>
  One row of a CPT's DataFrame: the cell under each column header, and the float of the
  column \<open>probabilidad\<close>. \<open>cargar_cpt\<close> takes \<open>padres\<close> and \<open>columna_valor\<close>
  from the header of the same table, so every column that the engine reads exists.
\<close>

record fila =
  celdas :: "string \<Rightarrow> celda"
  probabilidad :: real

text \<open>The dict stored in \<open>self.cpts[nombre_nodo]\<close> (the fields the engine reads).\<close>

record cpt_info =
  data :: "fila list"
  padres :: "variable list"
  columna_valor :: string

text \<open>
  The object \<open>RedBayesiana\<close>. \<open>self.variables\<close> is a Python set of strings; the engine
  only ever reads it through \<open>list(self.variables)\<close>. The field \<open>variables\<close> is that
  list: the set's members in the order in which the running interpreter iterates them.
  The graph \<open>self.grafo\<close> is not read by the inference engine.
\<close>

record red_bayesiana =
  cpts :: "variable \<rightharpoonup> cpt_info"
  variables :: "variable list"

datatype error = ValueError variable | KeyError variable | ZeroDivisionError

section \<open>Value domain of a variable\<close>

text \<open>
  \<open>Series.unique()\<close> of pandas returns the distinct cells in order of appearance: a scan
  that keeps a cell when it has not been seen before.
\<close>

fun unique_desde :: "'a list \<Rightarrow> 'a list \<Rightarrow> 'a list" where
  "unique_desde vistos [] = []"
| "unique_desde vistos (x # xs) =
     (if x \<in> set vistos then unique_desde vistos xs
      else x # unique_desde (x # vistos) xs)"

definition unique :: "'a list \<Rightarrow> 'a list" where
  "unique xs = unique_desde [] xs"

text \<open>The comprehension \<open>[v for v in ... if pd.notna(v)]\<close>.\<close>

fun notna :: "celda list \<Rightarrow> valor list" where
  "notna [] = []"
| "notna (None # cs) = notna cs"
| "notna (Some v # cs) = v # notna cs"

text \<open>
  \<open>list(cpt['data'][cpt['columna_valor']].unique())\<close> filtered by \<open>pd.notna\<close>
  (lines 134-135 and 183-184).
\<close>

definition columna :: "cpt_info \<Rightarrow> string \<Rightarrow> celda list" where
  "columna info c = map (\<lambda>r. celdas r c) (data info)"

definition valores :: "cpt_info \<Rightarrow> valor list" where
  "valores info = notna (unique (columna info (columna_valor info)))"

section \<open>Conditional lookup: \<open>obtener_probabilidad\<close> (lines 78-110)\<close>

text \<open>
  The mask starts all true; every declared parent that is a key of the evidence narrows it
  by the comparison of the parent's column with the evidence's value.
\<close>

definition estrechar :: "fila list \<Rightarrow> asignacion \<Rightarrow> variable \<Rightarrow> bool list \<Rightarrow> bool list" where
  "estrechar df evidencia_parcial padre mascara =
     (case map_of evidencia_parcial padre of
        None \<Rightarrow> mascara
      | Some x \<Rightarrow> map2 (\<and>) mascara (map (\<lambda>r. celdas r padre = Some x) df))"

definition mascara_padres :: "cpt_info \<Rightarrow> asignacion \<Rightarrow> bool list" where
  "mascara_padres info evidencia_parcial =
     fold (estrechar (data info) evidencia_parcial) (padres info)
       (replicate (length (data info)) True)"

text \<open>Boolean indexing \<open>df[mascara]\<close>.\<close>

definition seleccionar :: "'a list \<Rightarrow> bool list \<Rightarrow> 'a list" where
  "seleccionar df mascara = map fst (filter snd (zip df mascara))"

definition obtener_probabilidad ::
  "red_bayesiana \<Rightarrow> variable \<Rightarrow> valor \<Rightarrow> asignacion \<Rightarrow> error + real" where
  "obtener_probabilidad red variable valor evidencia_parcial =
     (case cpts red variable of
        None \<Rightarrow> Inl (ValueError variable)
      | Some info \<Rightarrow>
          if padres info = [] then
            (case filter (\<lambda>r. celdas r (columna_valor info) = Some valor) (data info) of
               [] \<Rightarrow> Inr 0
             | r # _ \<Rightarrow> Inr (probabilidad r))
          else
            (case seleccionar (data info) (mascara_padres info evidencia_parcial) of
               [] \<Rightarrow> Inr 0
             | f # fs \<Rightarrow>
                 (case filter (\<lambda>r. celdas r (columna_valor info) = Some valor) (f # fs) of
                    [] \<Rightarrow> Inr 0
                  | r # _ \<Rightarrow> Inr (probabilidad r))))"

text \<open>
  The specification's reading of the filter: a row survives when it agrees with the
  evidence on every declared parent that the evidence mentions.
\<close>

definition coincide :: "cpt_info \<Rightarrow> asignacion \<Rightarrow> fila \<Rightarrow> bool" where
  "coincide info evidencia_parcial r =
     list_all (\<lambda>padre. case map_of evidencia_parcial padre of
                          None \<Rightarrow> True
                        | Some x \<Rightarrow> celdas r padre = Some x) (padres info)"

section \<open>A small network used to exercise the definitions\<close>

text \<open>
  Three variables in the style of the repository's medical network: the roots \<open>Edad\<close>
  and \<open>Ejercicio\<close>, and \<open>Fumador\<close>, the child of \<open>Edad\<close>, whose table has the
  columns \<open>Edad, Fumador, probabilidad\<close>.
\<close>

definition fila_de :: "(string \<times> valor) list \<Rightarrow> real \<Rightarrow> fila" where
  "fila_de cs p = \<lparr>celdas = map_of cs, probabilidad = p\<rparr>"

definition cpt_Edad :: cpt_info where
  "cpt_Edad = \<lparr>data = [fila_de [(''Edad'', ''joven'')] (3/10),
                        fila_de [(''Edad'', ''adulto'')] (7/10)],
              padres = [], columna_valor = ''Edad''\<rparr>"

definition cpt_Fumador :: cpt_info where
  "cpt_Fumador = \<lparr>data = [fila_de [(''Edad'', ''joven''), (''Fumador'', ''si'')] (1/5),
                           fila_de [(''Edad'', ''joven''), (''Fumador'', ''no'')] (4/5),
                           fila_de [(''Edad'', ''adulto''), (''Fumador'', ''si'')] (2/5),
                           fila_de [(''Edad'', ''adulto''), (''Fumador'', ''no'')] (3/5)],
                 padres = [''Edad''], columna_valor = ''Fumador''\<rparr>"

definition cpt_Ejercicio :: cpt_info where
  "cpt_Ejercicio = \<lparr>data = [fila_de [(''Ejercicio'', ''poco'')] (1/2),
                             fila_de [(''Ejercicio'', ''moderado'')] (1/2)],
                   padres = [], columna_valor = ''Ejercicio''\<rparr>"

definition red_ejemplo :: red_bayesiana where
  "red_ejemplo = \<lparr>cpts = map_of [(''Edad'', cpt_Edad), (''Fumador'', cpt_Fumador),
                                  (''Ejercicio'', cpt_Ejercicio)],
                 variables = [''Edad'', ''Fumador'', ''Ejercicio'']\<rparr>"

section \<open>Properties of the lookup\<close>

lemma seleccionar_Cons:
  "seleccionar (r # df) (b # m) = (if b then r # seleccionar df m else seleccionar df m)"
  by (simp add: seleccionar_def)

lemma seleccionar_filter:
  "seleccionar df (map P df) = filter P df"
  by (induction df) (simp_all add: seleccionar_def)

lemma fold_estrechar:
  "fold (estrechar df ev) ps (map P df) =
     map (\<lambda>r. P r \<and> list_all (\<lambda>padre. case map_of ev padre of
                                        None \<Rightarrow> True
                                      | Some x \<Rightarrow> celdas r padre = Some x) ps) df"
proof (induction ps arbitrary: P)
  case Nil
  show ?case by simp
next
  case (Cons p ps)
  show ?case
  proof (cases "map_of ev p")
    case None
    then show ?thesis using Cons.IH [of P] by (simp add: estrechar_def)
  next
    case (Some x)
    have "estrechar df ev p (map P df) = map (\<lambda>r. P r \<and> celdas r p = Some x) df"
      by (simp add: estrechar_def Some map2_map_map)
    then show ?thesis
      using Cons.IH [of "\<lambda>r. P r \<and> celdas r p = Some x"] Some by simp
  qed
qed

lemma filas_coincidentes:
  "seleccionar (data info) (mascara_padres info ev) = filter (coincide info ev) (data info)"
proof -
  have "replicate (length (data info)) True = map (\<lambda>_. True) (data info)"
    by (simp add: map_replicate_const)
  then have "mascara_padres info ev = map (coincide info ev) (data info)"
    unfolding mascara_padres_def coincide_def by (simp add: fold_estrechar)
  then show ?thesis by (simp add: seleccionar_filter)
qed

lemma obtener_probabilidad_filter:
  assumes "cpts red variable = Some info"
  shows "obtener_probabilidad red variable valor ev =
    (case filter (\<lambda>r. celdas r (columna_valor info) = Some valor)
            (if padres info = [] then data info else filter (coincide info ev) (data info)) of
       [] \<Rightarrow> Inr 0
     | r # _ \<Rightarrow> Inr (probabilidad r))"
proof (cases "padres info = []")
  case True
  with assms show ?thesis by (simp add: obtener_probabilidad_def)
next
  case False
  show ?thesis
  proof (cases "filter (coincide info ev) (data info)")
    case Nil
    with assms False show ?thesis
      by (simp add: obtener_probabilidad_def filas_coincidentes)
  next
    case (Cons f fs)
    with assms False show ?thesis
      by (simp add: obtener_probabilidad_def filas_coincidentes)
  qed
qed

lemma coincide_sin_padres: "padres info = [] \<Longrightarrow> coincide info ev r"
  by (simp add: coincide_def)

text \<open>
  Claim C2. For a variable with a registered CPT, the lookup returns exactly 0 (a value,
  not an error) whenever no row of the table survives the parent filter, or no surviving
  row holds the requested value in the value column. For a root variable every row
  survives, since it declares no parent.
\<close>

theorem obtener_probabilidad_cero:
  assumes "cpts red variable = Some info"
    and "filter (coincide info ev) (data info) = [] \<or>
         filter (\<lambda>r. celdas r (columna_valor info) = Some valor)
           (filter (coincide info ev) (data info)) = []"
  shows "obtener_probabilidad red variable valor ev = Inr 0"
proof -
  have sin: "padres info = [] \<Longrightarrow> filter (coincide info ev) (data info) = data info"
    by (simp add: coincide_sin_padres)
  from assms(2) have
    "filter (\<lambda>r. celdas r (columna_valor info) = Some valor)
       (if padres info = [] then data info else filter (coincide info ev) (data info)) = []"
  proof (cases "padres info = []")
    case True
    with assms(2) sin show ?thesis by auto
  next
    case False
    from assms(2) have "\<forall>r \<in> set (data info).
        \<not> (coincide info ev r \<and> celdas r (columna_valor info) = Some valor)"
      by (auto simp: filter_empty_conv)
    with False show ?thesis by (auto simp: filter_empty_conv)
  qed
  then show ?thesis
    by (simp add: obtener_probabilidad_filter [OF assms(1)])
qed

theorem obtener_probabilidad_cero_witness:
  "cpts red_ejemplo ''Fumador'' = Some cpt_Fumador
   \<and> filter (\<lambda>r. celdas r (columna_valor cpt_Fumador) = Some ''quizas'')
       (filter (coincide cpt_Fumador [(''Edad'', ''adulto'')]) (data cpt_Fumador)) = []
   \<and> obtener_probabilidad red_ejemplo ''Fumador'' ''quizas'' [(''Edad'', ''adulto'')] = Inr 0"
proof -
  have h1: "cpts red_ejemplo ''Fumador'' = Some cpt_Fumador"
    by (simp add: red_ejemplo_def)
  have h2: "filter (\<lambda>r. celdas r (columna_valor cpt_Fumador) = Some ''quizas'')
       (filter (coincide cpt_Fumador [(''Edad'', ''adulto'')]) (data cpt_Fumador)) = []"
    by (simp add: cpt_Fumador_def fila_de_def coincide_def)
  from h1 h2 obtener_probabilidad_cero [OF h1 disjI2, OF h2] show ?thesis
    by simp
qed

text \<open>
  Claim C6. For a root variable (its CPT declares no parent) the lookup does not depend on
  the parent evidence it is given: any two evidence dicts give the same answer, which is
  read off the first row whose value column holds the requested value.
\<close>

theorem obtener_probabilidad_raiz:
  assumes "cpts red variable = Some info" and "padres info = []"
  shows "obtener_probabilidad red variable valor ev1 =
           obtener_probabilidad red variable valor ev2
       \<and> obtener_probabilidad red variable valor ev1 =
           (case filter (\<lambda>r. celdas r (columna_valor info) = Some valor) (data info) of
              [] \<Rightarrow> Inr 0
            | r # _ \<Rightarrow> Inr (probabilidad r))"
  using assms by (simp add: obtener_probabilidad_filter)

theorem obtener_probabilidad_raiz_witness:
  "cpts red_ejemplo ''Edad'' = Some cpt_Edad \<and> padres cpt_Edad = []
   \<and> obtener_probabilidad red_ejemplo ''Edad'' ''adulto'' [] =
       obtener_probabilidad red_ejemplo ''Edad'' ''adulto'' [(''Edad'', ''joven'')]
   \<and> obtener_probabilidad red_ejemplo ''Edad'' ''adulto'' [] = Inr (7/10)"
proof -
  have h1: "cpts red_ejemplo ''Edad'' = Some cpt_Edad"
    by (simp add: red_ejemplo_def)
  have h2: "padres cpt_Edad = []"
    by (simp add: cpt_Edad_def)
  have h3: "filter (\<lambda>r. celdas r (columna_valor cpt_Edad) = Some ''adulto'') (data cpt_Edad)
              = [fila_de [(''Edad'', ''adulto'')] (7/10)]"
    by (simp add: cpt_Edad_def fila_de_def)
  note r = obtener_probabilidad_raiz [OF h1 h2, of "''adulto''" "[]" "[(''Edad'', ''joven'')]"]
  have "obtener_probabilidad red_ejemplo ''Edad'' ''adulto'' [] = Inr (7/10)"
    using r [THEN conjunct2] by (simp add: h3 fila_de_def)
  with r h1 h2 show ?thesis by metis
qed

section \<open>Enumeration of the hidden variables: \<open>enumerar_combinaciones\<close>\<close>

text \<open>
  The loop \<open>for valor in valores_variable: ... combinaciones.extend(...)\<close> of lines
  187-190: \<open>combinaciones\<close> is the accumulator, and an exception raised by a call
  leaves the loop.
\<close>

fun extender_con :: "('a \<Rightarrow> error + 'b list) \<Rightarrow> 'a list \<Rightarrow> 'b list \<Rightarrow> error + 'b list" where
  "extender_con f [] combinaciones = Inr combinaciones"
| "extender_con f (valor # resto) combinaciones =
     (case f valor of
        Inl e \<Rightarrow> Inl e
      | Inr nuevas \<Rightarrow> extender_con f resto (combinaciones @ nuevas))"

text \<open>
  \<open>enumerar_combinaciones\<close> (lines 174-192). \<open>self.cpts[variable_actual]\<close> raises
  KeyError for a variable with no CPT. \<open>asignacion_actual.copy()\<close> followed by the
  assignment of one key is \<open>AList.update\<close> on the value of the dict.
\<close>

fun enumerar_combinaciones ::
  "red_bayesiana \<Rightarrow> variable list \<Rightarrow> asignacion \<Rightarrow> error + asignacion list" where
  "enumerar_combinaciones red [] asignacion_actual = Inr [asignacion_actual]"
| "enumerar_combinaciones red (variable_actual # resto) asignacion_actual =
     (case cpts red variable_actual of
        None \<Rightarrow> Inl (KeyError variable_actual)
      | Some info \<Rightarrow>
          extender_con
            (\<lambda>valor. enumerar_combinaciones red resto
                        (AList.update variable_actual valor asignacion_actual))
            (valores info) [])"

text \<open>
  The words of the specification. The domain of a variable is the list of values of its
  CPT; \<open>es_dominio\<close> says what that list must be: no duplicate, exactly the non-missing
  cells of the value column, ordered by first occurrence in the column. The Cartesian
  product is \<open>product_lists\<close>; a choice of one value per hidden variable extends the base
  assignment key by key.
\<close>

definition dominio :: "red_bayesiana \<Rightarrow> variable \<Rightarrow> valor list" where
  "dominio red v = (case cpts red v of None \<Rightarrow> [] | Some info \<Rightarrow> valores info)"

definition extender :: "asignacion \<Rightarrow> (variable \<times> valor) list \<Rightarrow> asignacion" where
  "extender base kvs = fold (\<lambda>(k, v). AList.update k v) kvs base"

definition primera :: "'a list \<Rightarrow> 'a \<Rightarrow> nat" where
  "primera xs x = length (takeWhile (\<lambda>y. y \<noteq> x) xs)"

definition es_dominio :: "cpt_info \<Rightarrow> valor list \<Rightarrow> bool" where
  "es_dominio info vs \<longleftrightarrow>
     distinct vs \<and>
     Some ` set vs = set (columna info (columna_valor info)) - {None} \<and>
     sorted_wrt (\<lambda>x y. primera (columna info (columna_valor info)) (Some x)
                        < primera (columna info (columna_valor info)) (Some y)) vs"

section \<open>Joint probability by the chain rule: \<open>calcular_probabilidad_conjunta\<close>\<close>

text \<open>
  One entry of \<open>explicacion\<close>: the text \<open>P(X=x|padres)=p\<close> for a variable with parents,
  \<open>P(X=x)=p\<close> for a root. The entry keeps the data that the text is formatted from.
\<close>

datatype factor = Condicional variable valor asignacion real | Marginal variable valor real

text \<open>
  Lines 151-155: the dict \<open>evidencia_padres\<close>, filled with the declared parents that the
  complete assignment has a value for; it stays empty for a variable with no CPT.
\<close>

definition evidencia_de_padres :: "red_bayesiana \<Rightarrow> variable \<Rightarrow> asignacion \<Rightarrow> asignacion" where
  "evidencia_de_padres red variable asignacion_completa =
     (case cpts red variable of
        None \<Rightarrow> []
      | Some info \<Rightarrow>
          fold (\<lambda>padre evidencia_padres.
                  case map_of asignacion_completa padre of
                    None \<Rightarrow> evidencia_padres
                  | Some x \<Rightarrow> AList.update padre x evidencia_padres)
            (padres info) [])"

text \<open>
  The loop of lines 147-170 over \<open>todas_variables\<close>, with the running product
  (the local \<open>probabilidad\<close>, here \<open>acumulada\<close>) and the list \<open>explicacion\<close>. The last argument is the log of a spy on
  \<open>self.obtener_probabilidad\<close>: the variables it has been called for, in order of call.
  \<open>asignacion_completa[variable]\<close> raises KeyError for a variable the assignment lacks;
  an exception of the lookup leaves the function.
\<close>

fun bucle_conjunta ::
  "red_bayesiana \<Rightarrow> asignacion \<Rightarrow> variable list \<Rightarrow> real \<Rightarrow> factor list \<Rightarrow> variable list
     \<Rightarrow> (error + real \<times> factor list) \<times> variable list" where
  "bucle_conjunta red asignacion_completa [] acumulada explicacion llamadas =
     (Inr (acumulada, explicacion), llamadas)"
| "bucle_conjunta red asignacion_completa (variable # resto) acumulada explicacion llamadas =
     (case map_of asignacion_completa variable of
        None \<Rightarrow> (Inl (KeyError variable), llamadas)
      | Some valor \<Rightarrow>
          let evidencia_padres = evidencia_de_padres red variable asignacion_completa in
          (case obtener_probabilidad red variable valor evidencia_padres of
             Inl e \<Rightarrow> (Inl e, llamadas @ [variable])
           | Inr prob_cond \<Rightarrow>
               if prob_cond = 0 then (Inr (0, []), llamadas @ [variable])
               else
                 (case cpts red variable of
                    None \<Rightarrow> (Inl (KeyError variable), llamadas @ [variable])
                  | Some info \<Rightarrow>
                      bucle_conjunta red asignacion_completa resto (acumulada * prob_cond)
                        (explicacion @
                           [if padres info \<noteq> []
                            then Condicional variable valor evidencia_padres prob_cond
                            else Marginal variable valor prob_cond])
                        (llamadas @ [variable]))))"

definition calcular_probabilidad_conjunta ::
  "red_bayesiana \<Rightarrow> asignacion \<Rightarrow> (error + real \<times> factor list) \<times> variable list" where
  "calcular_probabilidad_conjunta red asignacion_completa =
     bucle_conjunta red asignacion_completa (variables red) 1 [] []"

text \<open>
  The conditional factor of one variable under a complete assignment: what the loop's body
  obtains for it.
\<close>

definition factor_de :: "red_bayesiana \<Rightarrow> asignacion \<Rightarrow> variable \<Rightarrow> error + real" where
  "factor_de red asignacion_completa variable =
     (case map_of asignacion_completa variable of
        None \<Rightarrow> Inl (KeyError variable)
      | Some valor \<Rightarrow>
          obtener_probabilidad red variable valor
            (evidencia_de_padres red variable asignacion_completa))"

section \<open>The trace: \<open>log_traza\<close>\<close>

text \<open>
  Every message passed to \<open>log_traza\<close> is a formatted text. A message is modelled by its
  kind and the values its text is formatted from, so equal messages are equal texts.
  The first two constructors are the two header lines written when the trace file is
  opened.
\<close>

datatype mensaje =
    Cabecera
  | CabeceraConsulta variable asignacion
  | VariablesRed "variable list"
  | VariablesOcultas "variable list"
  | Consulta variable
  | Evidencia asignacion
  | ValoresPosibles variable "valor list"
  | CalculoConjuntas
  | Formula variable asignacion "variable list"
  | CalculoPara variable valor
  | Combinacion nat asignacion
  | Producto "factor list" real
  | SumaPara variable valor real
  | CombinacionesValidas nat
  | Normalizacion
  | SumaTotal real
  | ErrorSumaCero
  | FactorAlpha real real
  | Normalizada variable valor real real real
  | ResultadoFinal
  | Resultado variable asignacion "(valor \<times> real) list"

text \<open>
  The two sinks: what has been printed, and the lines of every file. Writing is assumed
  to succeed.
\<close>

record salida =
  consola :: "mensaje list"
  archivos :: "string \<Rightarrow> mensaje list"

text \<open>\<open>if archivo_traza:\<close> holds for a path that is neither \<open>None\<close> nor the empty string.\<close>

fun ruta_traza :: "string option \<Rightarrow> string option" where
  "ruta_traza None = None"
| "ruta_traza (Some ruta) = (if ruta = [] then None else Some ruta)"

definition log_traza :: "bool \<Rightarrow> string option \<Rightarrow> mensaje \<Rightarrow> salida \<Rightarrow> salida" where
  "log_traza mostrar_traza archivo_traza mensaje io =
     (let io1 = (if mostrar_traza then io\<lparr>consola := consola io @ [mensaje]\<rparr> else io)
      in case ruta_traza archivo_traza of
           None \<Rightarrow> io1
         | Some ruta \<Rightarrow> io1\<lparr>archivos := (archivos io1)(ruta := archivos io1 ruta @ [mensaje])\<rparr>)"

text \<open>Lines 121-124: opening the trace file with mode \<open>w\<close> replaces its content.\<close>

definition abrir_traza :: "string option \<Rightarrow> variable \<Rightarrow> asignacion \<Rightarrow> salida \<Rightarrow> salida" where
  "abrir_traza archivo_traza consulta evidencia io =
     (case ruta_traza archivo_traza of
        None \<Rightarrow> io
      | Some ruta \<Rightarrow>
          io\<lparr>archivos := (archivos io)(ruta := [Cabecera, CabeceraConsulta consulta evidencia])\<rparr>)"

section \<open>The inference: \<open>inferencia_por_enumeracion\<close> (lines 112-239)\<close>

text \<open>
  The loop of lines 205-212 over the enumerated combinations, with the accumulators
  \<open>suma_probabilidad\<close> and \<open>combinaciones_validas\<close>.
\<close>

fun sumar_combinaciones ::
  "bool \<Rightarrow> string option \<Rightarrow> red_bayesiana \<Rightarrow> asignacion list \<Rightarrow> real \<Rightarrow> nat \<Rightarrow> salida
     \<Rightarrow> (error + real \<times> nat) \<times> salida" where
  "sumar_combinaciones mostrar archivo red [] suma_probabilidad combinaciones_validas io =
     (Inr (suma_probabilidad, combinaciones_validas), io)"
| "sumar_combinaciones mostrar archivo red (combinacion # resto) suma_probabilidad combinaciones_validas io =
     (case fst (calcular_probabilidad_conjunta red combinacion) of
        Inl e \<Rightarrow> (Inl e, io)
      | Inr (prob, explicacion) \<Rightarrow>
          if prob > 0 then
            sumar_combinaciones mostrar archivo red resto (suma_probabilidad + prob)
              (combinaciones_validas + 1)
              (log_traza mostrar archivo (Producto explicacion prob)
                 (log_traza mostrar archivo (Combinacion (combinaciones_validas + 1) combinacion) io))
          else sumar_combinaciones mostrar archivo red resto suma_probabilidad combinaciones_validas io)"

text \<open>
  The loop of lines 196-216 over the values of the query variable, filling the dict
  \<open>resultados\<close>. The base assignment is a copy of the evidence with the query variable
  set.
\<close>

fun bucle_consulta ::
  "bool \<Rightarrow> string option \<Rightarrow> red_bayesiana \<Rightarrow> variable \<Rightarrow> asignacion \<Rightarrow> variable list
     \<Rightarrow> valor list \<Rightarrow> (valor \<times> real) list \<Rightarrow> salida
     \<Rightarrow> (error + (valor \<times> real) list) \<times> salida" where
  "bucle_consulta mostrar archivo red consulta evidencia variables_ocultas [] resultados io =
     (Inr resultados, io)"
| "bucle_consulta mostrar archivo red consulta evidencia variables_ocultas (valor_consulta # resto)
     resultados io =
     (let io1 = log_traza mostrar archivo (CalculoPara consulta valor_consulta) io;
          asignacion_base = AList.update consulta valor_consulta evidencia
      in case enumerar_combinaciones red variables_ocultas asignacion_base of
           Inl e \<Rightarrow> (Inl e, io1)
         | Inr combinaciones \<Rightarrow>
             (case sumar_combinaciones mostrar archivo red combinaciones 0 0 io1 of
                (Inl e, io2) \<Rightarrow> (Inl e, io2)
              | (Inr (suma_probabilidad, combinaciones_validas), io2) \<Rightarrow>
                  bucle_consulta mostrar archivo red consulta evidencia variables_ocultas resto
                    (AList.update valor_consulta suma_probabilidad resultados)
                    (log_traza mostrar archivo (CombinacionesValidas combinaciones_validas)
                       (log_traza mostrar archivo (SumaPara consulta valor_consulta suma_probabilidad)
                          io2))))"

text \<open>Float division: \<open>1.0 / x\<close> raises ZeroDivisionError when \<open>x\<close> is zero.\<close>

definition dividir :: "real \<Rightarrow> real \<Rightarrow> error + real" where
  "dividir a b = (if b = 0 then Inl ZeroDivisionError else Inr (a / b))"

text \<open>The loop of lines 231-234 over \<open>resultados.items()\<close>.\<close>

fun bucle_normalizar ::
  "bool \<Rightarrow> string option \<Rightarrow> variable \<Rightarrow> real \<Rightarrow> (valor \<times> real) list \<Rightarrow> (valor \<times> real) list
     \<Rightarrow> salida \<Rightarrow> (valor \<times> real) list \<times> salida" where
  "bucle_normalizar mostrar archivo consulta alpha [] resultados_normalizados io =
     (resultados_normalizados, io)"
| "bucle_normalizar mostrar archivo consulta alpha ((valor, prob) # resto) resultados_normalizados io =
     (let prob_normalizada = prob * alpha
      in bucle_normalizar mostrar archivo consulta alpha resto
           (AList.update valor prob_normalizada resultados_normalizados)
           (log_traza mostrar archivo (Normalizada consulta valor prob alpha prob_normalizada) io))"

text \<open>
  Lines 218-239: the normalisation of the accumulated sums. The result \<open>None\<close> is
  Python's \<open>None\<close>, returned for a total of zero.
\<close>

definition normalizar ::
  "bool \<Rightarrow> string option \<Rightarrow> variable \<Rightarrow> asignacion \<Rightarrow> (valor \<times> real) list \<Rightarrow> salida
     \<Rightarrow> (error + (valor \<times> real) list option) \<times> salida" where
  "normalizar mostrar archivo consulta evidencia resultados io =
     (let io1 = log_traza mostrar archivo Normalizacion io;
          suma_total = sum_list (map snd resultados);
          io2 = log_traza mostrar archivo (SumaTotal suma_total) io1
      in if suma_total = 0 then (Inr None, log_traza mostrar archivo ErrorSumaCero io2)
         else
           (case dividir 1 suma_total of
              Inl e \<Rightarrow> (Inl e, io2)
            | Inr alpha \<Rightarrow>
                (case bucle_normalizar mostrar archivo consulta alpha resultados []
                        (log_traza mostrar archivo (FactorAlpha suma_total alpha) io2) of
                   (resultados_normalizados, io3) \<Rightarrow>
                     (Inr (Some resultados_normalizados),
                      log_traza mostrar archivo (Resultado consulta evidencia resultados_normalizados)
                        (log_traza mostrar archivo ResultadoFinal io3)))))"

text \<open>Line 129: the hidden variables, in the order of \<open>todas_variables\<close>.\<close>

definition ocultas_de :: "red_bayesiana \<Rightarrow> variable \<Rightarrow> asignacion \<Rightarrow> variable list" where
  "ocultas_de red consulta evidencia =
     filter (\<lambda>v. v \<noteq> consulta \<and> map_of evidencia v = None) (variables red)"

definition inferencia_por_enumeracion ::
  "red_bayesiana \<Rightarrow> variable \<Rightarrow> asignacion \<Rightarrow> bool \<Rightarrow> string option \<Rightarrow> salida
     \<Rightarrow> (error + (valor \<times> real) list option) \<times> salida" where
  "inferencia_por_enumeracion red consulta evidencia mostrar_traza archivo_traza io =
     (let io0 = abrir_traza archivo_traza consulta evidencia io;
          todas_variables = variables red;
          io1 = log_traza mostrar_traza archivo_traza (VariablesRed todas_variables) io0;
          variables_ocultas = ocultas_de red consulta evidencia;
          io2 = log_traza mostrar_traza archivo_traza (Evidencia evidencia)
                  (log_traza mostrar_traza archivo_traza (Consulta consulta)
                     (log_traza mostrar_traza archivo_traza
                        (VariablesOcultas variables_ocultas) io1))
      in case cpts red consulta of
           None \<Rightarrow> (Inl (KeyError consulta), io2)
         | Some info \<Rightarrow>
             (let valores_consulta = valores info;
                  io3 = log_traza mostrar_traza archivo_traza
                          (Formula consulta evidencia variables_ocultas)
                          (log_traza mostrar_traza archivo_traza CalculoConjuntas
                             (log_traza mostrar_traza archivo_traza
                                (ValoresPosibles consulta valores_consulta) io2))
              in case bucle_consulta mostrar_traza archivo_traza red consulta evidencia
                        variables_ocultas valores_consulta [] io3 of
                   (Inl e, io4) \<Rightarrow> (Inl e, io4)
                 | (Inr resultados, io4) \<Rightarrow>
                     normalizar mostrar_traza archivo_traza consulta evidencia resultados io4))"

text \<open>The same network when the table of \<open>Ejercicio\<close> has not been loaded.\<close>

definition red_sin_cpt :: red_bayesiana where
  "red_sin_cpt = \<lparr>cpts = map_of [(''Edad'', cpt_Edad), (''Fumador'', cpt_Fumador)],
                 variables = [''Edad'', ''Fumador'', ''Ejercicio'']\<rparr>"

text \<open>The state of the two sinks before anything is printed or written.\<close>

definition io_vacia :: salida where
  "io_vacia = \<lparr>consola = [], archivos = (\<lambda>_. [])\<rparr>"

section \<open>Properties of the enumeration\<close>

lemma extender_con_Inr:
  "(\<And>x. x \<in> set xs \<Longrightarrow> f x = Inr (g x)) \<Longrightarrow>
     extender_con f xs acc = Inr (acc @ concat (map g xs))"
  by (induction xs arbitrary: acc) simp_all

lemma enumerar_producto:
  "(\<And>v. v \<in> set ocultas \<Longrightarrow> cpts red v \<noteq> None) \<Longrightarrow>
   enumerar_combinaciones red ocultas base =
     Inr (map (\<lambda>vs. extender base (zip ocultas vs))
            (product_lists (map (dominio red) ocultas)))"
proof (induction ocultas arbitrary: base)
  case Nil
  show ?case by (simp add: extender_def)
next
  case (Cons v vs)
  from Cons.prems [of v] obtain info where info: "cpts red v = Some info" by auto
  have rec: "\<And>x. enumerar_combinaciones red vs (AList.update v x base) =
     Inr (map (\<lambda>ws. extender (AList.update v x base) (zip vs ws))
            (product_lists (map (dominio red) vs)))"
    using Cons.IH Cons.prems by simp
  have dv: "dominio red v = valores info" by (simp add: dominio_def info)
  show ?case
    by (simp add: info rec extender_con_Inr [where g = "\<lambda>x. map (\<lambda>ws. extender (AList.update v x base) (zip vs ws))
            (product_lists (map (dominio red) vs))"] dv map_concat comp_def extender_def)
qed

lemma set_unique_desde: "set (unique_desde vs xs) = set xs - set vs"
  by (induction vs xs rule: unique_desde.induct) auto

lemma distinct_unique_desde: "distinct (unique_desde vs xs)"
  by (induction vs xs rule: unique_desde.induct) (auto simp: set_unique_desde)

lemma primera_Cons: "primera (x # xs) y = (if y = x then 0 else Suc (primera xs y))"
  by (auto simp: primera_def)

lemma orden_unique_desde:
  "sorted_wrt (\<lambda>a b. primera xs a < primera xs b) (unique_desde vs xs)"
proof (induction vs xs rule: unique_desde.induct)
  case (1 vistos)
  show ?case by simp
next
  case (2 vistos x xs)
  show ?case
  proof (cases "x \<in> set vistos")
    case True
    have "x \<notin> set (unique_desde vistos xs)" using True by (simp add: set_unique_desde)
    then have "\<And>a b. a \<in> set (unique_desde vistos xs) \<Longrightarrow> b \<in> set (unique_desde vistos xs) \<Longrightarrow>
       primera xs a < primera xs b \<Longrightarrow> primera (x # xs) a < primera (x # xs) b"
      by (auto simp: primera_Cons)
    with 2(1) [OF True] show ?thesis
      using True by (auto intro: sorted_wrt_mono_rel [rotated])
  next
    case False
    have nx: "x \<notin> set (unique_desde (x # vistos) xs)" by (simp add: set_unique_desde)
    then have m: "\<And>a b. a \<in> set (unique_desde (x # vistos) xs) \<Longrightarrow> b \<in> set (unique_desde (x # vistos) xs) \<Longrightarrow>
       primera xs a < primera xs b \<Longrightarrow> primera (x # xs) a < primera (x # xs) b"
      by (auto simp: primera_Cons)
    have "sorted_wrt (\<lambda>a b. primera (x # xs) a < primera (x # xs) b) (unique_desde (x # vistos) xs)"
      using 2(2) [OF False] m by (auto intro: sorted_wrt_mono_rel [rotated])
    moreover have "\<forall>b \<in> set (unique_desde (x # vistos) xs). primera (x # xs) x < primera (x # xs) b"
      using nx by (auto simp: primera_Cons)
    ultimately show ?thesis using False by simp
  qed
qed

lemma in_set_notna: "v \<in> set (notna cs) \<longleftrightarrow> Some v \<in> set cs"
  by (induction cs rule: notna.induct) auto

lemma distinct_notna: "distinct cs \<Longrightarrow> distinct (notna cs)"
  by (induction cs rule: notna.induct) (auto simp: in_set_notna)

lemma sorted_wrt_notna:
  "sorted_wrt R cs \<Longrightarrow> sorted_wrt (\<lambda>x y. R (Some x) (Some y)) (notna cs)"
  by (induction cs rule: notna.induct) (auto simp: in_set_notna)

lemma es_dominio_valores: "es_dominio info (valores info)"
proof -
  let ?col = "columna info (columna_valor info)"
  have d: "distinct (unique ?col)" and s: "set (unique ?col) = set ?col"
    by (simp_all add: unique_def distinct_unique_desde set_unique_desde)
  have o: "sorted_wrt (\<lambda>a b. primera ?col a < primera ?col b) (unique ?col)"
    by (simp add: unique_def orden_unique_desde)
  have 1: "distinct (valores info)"
    unfolding valores_def using d by (rule distinct_notna)
  have "\<And>c. c \<in> Some ` set (valores info) \<longleftrightarrow> c \<in> set ?col - {None}"
    unfolding valores_def by (auto simp: in_set_notna s)
  then have 2: "Some ` set (valores info) = set ?col - {None}"
    by blast
  have 3: "sorted_wrt (\<lambda>x y. primera ?col (Some x) < primera ?col (Some y)) (valores info)"
    unfolding valores_def using o by (rule sorted_wrt_notna)
  from 1 2 3 show ?thesis unfolding es_dominio_def by blast
qed

lemma map_of_extender:
  "k \<notin> fst ` set kvs \<Longrightarrow> map_of (extender base kvs) k = map_of base k"
  unfolding extender_def
  by (induction kvs arbitrary: base) (auto simp: update_conv')

text \<open>
  Claim C1. When every hidden variable has a registered CPT, the recursive enumeration
  returns the Cartesian product of the hidden variables' domains, in the order of the
  product (the first variable varies slowest), each tuple of values written into the base
  assignment; the keys that are not hidden variables keep the base assignment's values.
  The domain of a variable is the list of distinct non-missing values of its value
  column in order of first occurrence. With no hidden variable the result is the base
  assignment alone.
\<close>

theorem enumerar_combinaciones_producto:
  assumes "\<forall>v \<in> set ocultas. cpts red v \<noteq> None"
  shows "enumerar_combinaciones red ocultas base =
           Inr (map (\<lambda>vs. extender base (zip ocultas vs))
                  (product_lists (map (dominio red) ocultas)))
       \<and> (\<forall>v info. cpts red v = Some info \<longrightarrow> es_dominio info (dominio red v))
       \<and> (\<forall>vs k. k \<notin> set ocultas \<longrightarrow>
             map_of (extender base (zip ocultas vs)) k = map_of base k)
       \<and> enumerar_combinaciones red [] base = Inr [base]"
proof -
  have 1: "enumerar_combinaciones red ocultas base =
           Inr (map (\<lambda>vs. extender base (zip ocultas vs))
                  (product_lists (map (dominio red) ocultas)))"
    using assms by (intro enumerar_producto) simp
  have 2: "\<forall>v info. cpts red v = Some info \<longrightarrow> es_dominio info (dominio red v)"
    by (simp add: dominio_def es_dominio_valores)
  have 3: "\<forall>vs k. k \<notin> set ocultas \<longrightarrow>
             map_of (extender base (zip ocultas vs)) k = map_of base k"
  proof (intro allI impI)
    fix vs :: "valor list" and k
    assume "k \<notin> set ocultas"
    then have "k \<notin> fst ` set (zip ocultas vs)"
      by (auto dest: set_zip_leftD)
    then show "map_of (extender base (zip ocultas vs)) k = map_of base k"
      by (rule map_of_extender)
  qed
  from 1 2 3 show ?thesis by simp
qed

lemma valores_cpt_Edad: "valores cpt_Edad = [''joven'', ''adulto'']"
  by (simp add: valores_def columna_def unique_def cpt_Edad_def fila_de_def)

lemma valores_cpt_Fumador: "valores cpt_Fumador = [''si'', ''no'']"
  by (simp add: valores_def columna_def unique_def cpt_Fumador_def fila_de_def)

theorem enumerar_combinaciones_producto_witness:
  "enumerar_combinaciones red_ejemplo [''Edad'', ''Fumador''] [(''Ejercicio'', ''poco'')] =
     Inr [[(''Ejercicio'', ''poco''), (''Edad'', ''joven''), (''Fumador'', ''si'')],
          [(''Ejercicio'', ''poco''), (''Edad'', ''joven''), (''Fumador'', ''no'')],
          [(''Ejercicio'', ''poco''), (''Edad'', ''adulto''), (''Fumador'', ''si'')],
          [(''Ejercicio'', ''poco''), (''Edad'', ''adulto''), (''Fumador'', ''no'')]]"
proof -
  have h: "\<forall>v \<in> set [''Edad'', ''Fumador'']. cpts red_ejemplo v \<noteq> None"
    by (simp add: red_ejemplo_def)
  have d: "dominio red_ejemplo ''Edad'' = [''joven'', ''adulto'']"
    "dominio red_ejemplo ''Fumador'' = [''si'', ''no'']"
    by (simp_all add: dominio_def red_ejemplo_def valores_cpt_Edad valores_cpt_Fumador)
  from enumerar_combinaciones_producto [OF h, of "[(''Ejercicio'', ''poco'')]"]
  have "enumerar_combinaciones red_ejemplo [''Edad'', ''Fumador''] [(''Ejercicio'', ''poco'')] =
      Inr (map (\<lambda>vs. extender [(''Ejercicio'', ''poco'')] (zip [''Edad'', ''Fumador''] vs))
             (product_lists (map (dominio red_ejemplo) [''Edad'', ''Fumador''])))"
    by (rule conjunct1)
  then show ?thesis by (simp add: d extender_def)
qed

section \<open>Properties of the joint probability\<close>

lemma factor_de_Inr:
  assumes "factor_de red a v = Inr p"
  obtains valor info where "map_of a v = Some valor"
    and "obtener_probabilidad red v valor (evidencia_de_padres red v a) = Inr p"
    and "cpts red v = Some info"
  using assms
  by (auto simp: factor_de_def obtener_probabilidad_def split: option.splits)

lemma bucle_conjunta_cero:
  "i < length vs \<Longrightarrow>
   (\<forall>j<i. \<exists>p. factor_de red a (vs ! j) = Inr p \<and> p \<noteq> 0) \<Longrightarrow>
   factor_de red a (vs ! i) = Inr 0 \<Longrightarrow>
   bucle_conjunta red a vs acc expl calls = (Inr (0, []), calls @ take (Suc i) vs)"
proof (induction vs arbitrary: i acc expl calls)
  case Nil
  then show ?case by simp
next
  case (Cons v vs)
  show ?case
  proof (cases i)
    case 0
    with Cons.prems(3) have "factor_de red a v = Inr 0" by simp
    then obtain valor info where "map_of a v = Some valor"
      "obtener_probabilidad red v valor (evidencia_de_padres red v a) = Inr 0"
      by (rule factor_de_Inr)
    with 0 show ?thesis by simp
  next
    case (Suc k)
    from Cons.prems(2) Suc obtain p where p: "factor_de red a v = Inr p" "p \<noteq> 0"
      by fastforce
    from p(1) obtain valor info where v: "map_of a v = Some valor"
      "obtener_probabilidad red v valor (evidencia_de_padres red v a) = Inr p"
      "cpts red v = Some info"
      by (rule factor_de_Inr)
    have k: "k < length vs" using Cons.prems(1) Suc by simp
    have pre: "\<forall>j<k. \<exists>p. factor_de red a (vs ! j) = Inr p \<and> p \<noteq> 0"
      using Cons.prems(2) Suc by fastforce
    have z: "factor_de red a (vs ! k) = Inr 0" using Cons.prems(3) Suc by simp
    show ?thesis
      using v p(2) Suc Cons.IH [OF k pre z] by simp
  qed
qed

text \<open>
  Claim C3. If the factor of the variable at position \<open>i\<close> of \<open>todas_variables\<close>
  (counting from 0) is exactly 0, and every earlier factor is a nonzero number, the joint
  evaluation returns probability 0 with an empty explanation, and the lookups it has made
  are those of the first \<open>i + 1\<close> variables and no other: their number is the position
  of the first zero factor, whatever the number of variables of the network.
\<close>

theorem calcular_probabilidad_conjunta_poda:
  assumes "i < length (variables red)"
    and "\<forall>j<i. \<exists>p. factor_de red a (variables red ! j) = Inr p \<and> p \<noteq> 0"
    and "factor_de red a (variables red ! i) = Inr 0"
  shows "calcular_probabilidad_conjunta red a = (Inr (0, []), take (Suc i) (variables red))
       \<and> length (snd (calcular_probabilidad_conjunta red a)) = Suc i"
proof -
  have "calcular_probabilidad_conjunta red a = (Inr (0, []), take (Suc i) (variables red))"
    unfolding calcular_probabilidad_conjunta_def
    using bucle_conjunta_cero [OF assms, of 1 "[]" "[]"] by simp
  with assms(1) show ?thesis by simp
qed

lemma factor_Edad_adulto:
  "factor_de red_ejemplo [(''Edad'', ''adulto''), (''Fumador'', ''quizas''), (''Ejercicio'', ''poco'')] ''Edad'' = Inr (7/10)"
  by (simp add: factor_de_def obtener_probabilidad_def red_ejemplo_def cpt_Edad_def fila_de_def evidencia_de_padres_def)

lemma factor_Fumador_quizas:
  "factor_de red_ejemplo [(''Edad'', ''adulto''), (''Fumador'', ''quizas''), (''Ejercicio'', ''poco'')] ''Fumador'' = Inr 0"
  by (simp add: factor_de_def obtener_probabilidad_def red_ejemplo_def cpt_Fumador_def fila_de_def evidencia_de_padres_def
      mascara_padres_def estrechar_def seleccionar_def)

theorem calcular_probabilidad_conjunta_poda_witness:
  "calcular_probabilidad_conjunta red_ejemplo
     [(''Edad'', ''adulto''), (''Fumador'', ''quizas''), (''Ejercicio'', ''poco'')]
     = (Inr (0, []), [''Edad'', ''Fumador''])
   \<and> length (variables red_ejemplo) = 3"
proof -
  let ?a = "[(''Edad'', ''adulto''), (''Fumador'', ''quizas''), (''Ejercicio'', ''poco'')]"
  have v: "variables red_ejemplo = [''Edad'', ''Fumador'', ''Ejercicio'']"
    by (simp add: red_ejemplo_def)
  have h1: "(1::nat) < length (variables red_ejemplo)" by (simp add: v)
  have h2: "\<forall>j<1. \<exists>p. factor_de red_ejemplo ?a (variables red_ejemplo ! j) = Inr p \<and> p \<noteq> 0"
  proof (intro allI impI)
    fix j :: nat
    assume "j < 1"
    then have "j = 0" by simp
    then show "\<exists>p. factor_de red_ejemplo ?a (variables red_ejemplo ! j) = Inr p \<and> p \<noteq> 0"
      by (intro exI [of _ "7/10"]) (simp add: v factor_Edad_adulto)
  qed
  have h3: "factor_de red_ejemplo ?a (variables red_ejemplo ! 1) = Inr 0"
    by (simp add: v factor_Fumador_quizas)
  from calcular_probabilidad_conjunta_poda [OF h1 h2 h3] show ?thesis
    by (simp add: v)
qed

section \<open>The trace does not influence the result\<close>

lemma sumar_combinaciones_sin_traza:
  "fst (sumar_combinaciones m1 a1 red cs suma n io1) =
   fst (sumar_combinaciones m2 a2 red cs suma n io2)"
proof (induction cs arbitrary: suma n io1 io2)
  case Nil
  show ?case by simp
next
  case (Cons c cs)
  show ?case
  proof (cases "fst (calcular_probabilidad_conjunta red c)")
    case (Inl e)
    then show ?thesis by simp
  next
    case (Inr pe)
    obtain prob expl where pe: "pe = (prob, expl)" by (cases pe)
    show ?thesis
      using Inr pe Cons.IH by (cases "prob > 0") simp_all
  qed
qed

lemma bucle_consulta_sin_traza:
  "fst (bucle_consulta m1 a1 red consulta evidencia ocultas vs resultados io1) =
   fst (bucle_consulta m2 a2 red consulta evidencia ocultas vs resultados io2)"
proof (induction vs arbitrary: resultados io1 io2)
  case Nil
  show ?case by simp
next
  case (Cons v vs)
  let ?base = "AList.update consulta v evidencia"
  show ?case
  proof (cases "enumerar_combinaciones red ocultas ?base")
    case (Inl e)
    then show ?thesis by (simp add: Let_def)
  next
    case (Inr combos)
    let ?s1 = "sumar_combinaciones m1 a1 red combos 0 0 (log_traza m1 a1 (CalculoPara consulta v) io1)"
    let ?s2 = "sumar_combinaciones m2 a2 red combos 0 0 (log_traza m2 a2 (CalculoPara consulta v) io2)"
    have eq: "fst ?s1 = fst ?s2" by (rule sumar_combinaciones_sin_traza)
    show ?thesis
    proof (cases "fst ?s1")
      case (Inl e)
      with eq have "fst ?s2 = Inl e" by simp
      with Inl Inr show ?thesis
        by (cases ?s1; cases ?s2) (simp add: Let_def)
    next
      case r: (Inr sv)
      obtain suma validas where sv: "sv = (suma, validas)" by (cases sv)
      from eq r have "fst ?s2 = Inr sv" by simp
      with r Inr sv show ?thesis
        using Cons.IH by (cases ?s1; cases ?s2) (simp add: Let_def)
    qed
  qed
qed

lemma bucle_normalizar_sin_traza:
  "fst (bucle_normalizar m1 a1 consulta alpha rs acc io1) =
   fst (bucle_normalizar m2 a2 consulta alpha rs acc io2)"
proof (induction rs arbitrary: acc io1 io2)
  case Nil
  show ?case by simp
next
  case (Cons r rs)
  obtain valor prob where "r = (valor, prob)" by (cases r)
  then show ?case using Cons.IH by (simp add: Let_def)
qed

lemma normalizar_sin_traza:
  "fst (normalizar m1 a1 consulta evidencia resultados io1) =
   fst (normalizar m2 a2 consulta evidencia resultados io2)"
proof (cases "sum_list (map snd resultados) = 0")
  case True
  then show ?thesis by (simp add: normalizar_def Let_def)
next
  case False
  let ?t = "sum_list (map snd resultados)"
  let ?b1 = "bucle_normalizar m1 a1 consulta (1 / ?t) resultados []
     (log_traza m1 a1 (FactorAlpha ?t (1 / ?t))
        (log_traza m1 a1 (SumaTotal ?t) (log_traza m1 a1 Normalizacion io1)))"
  let ?b2 = "bucle_normalizar m2 a2 consulta (1 / ?t) resultados []
     (log_traza m2 a2 (FactorAlpha ?t (1 / ?t))
        (log_traza m2 a2 (SumaTotal ?t) (log_traza m2 a2 Normalizacion io2)))"
  have "fst ?b1 = fst ?b2" by (rule bucle_normalizar_sin_traza)
  then show ?thesis
    using False by (cases ?b1; cases ?b2) (simp add: normalizar_def Let_def dividir_def)
qed


section \<open>Normalisation\<close>






lemma normalizar_total_cero:
  "sum_list (map snd resultados) = 0 \<Longrightarrow>
   fst (normalizar mostrar archivo consulta evidencia resultados io) = Inr None"
  by (simp add: normalizar_def Let_def)

lemma normalizar_sin_division_por_cero:
  "fst (normalizar mostrar archivo consulta evidencia resultados io) \<noteq> Inl ZeroDivisionError"
proof (cases "sum_list (map snd resultados) = 0")
  case True
  then show ?thesis by (simp add: normalizar_total_cero)
next
  case False
  let ?t = "sum_list (map snd resultados)"
  let ?io = "log_traza mostrar archivo (FactorAlpha ?t (1 / ?t))
     (log_traza mostrar archivo (SumaTotal ?t) (log_traza mostrar archivo Normalizacion io))"
  show ?thesis using False
    by (cases "bucle_normalizar mostrar archivo consulta (1 / ?t) resultados [] ?io")
       (simp add: normalizar_def Let_def dividir_def)
qed

section \<open>Impossible evidence\<close>

text \<open>No loop of the engine raises ZeroDivisionError: none of them divides.\<close>

lemma bucle_conjunta_sin_zde:
  "fst (bucle_conjunta red a vs p expl calls) \<noteq> Inl ZeroDivisionError"
proof (induction vs arbitrary: p expl calls)
  case Nil
  show ?case by simp
next
  case (Cons v vs)
  show ?case using Cons.IH
    by (auto simp: Let_def obtener_probabilidad_def split: option.splits sum.splits list.splits)
qed

lemma sumar_combinaciones_sin_zde:
  "fst (sumar_combinaciones m a red cs suma n io) \<noteq> Inl ZeroDivisionError"
proof (induction cs arbitrary: suma n io)
  case Nil
  show ?case by simp
next
  case (Cons c cs)
  show ?case
  proof (cases "fst (calcular_probabilidad_conjunta red c)")
    case (Inl e)
    have "e \<noteq> ZeroDivisionError"
      using Inl bucle_conjunta_sin_zde [of red c "variables red" 1 "[]" "[]"]
      by (auto simp: calcular_probabilidad_conjunta_def)
    with Inl show ?thesis by simp
  next
    case (Inr pe)
    obtain prob expl where "pe = (prob, expl)" by (cases pe)
    with Inr Cons.IH show ?thesis by (cases "prob > 0") simp_all
  qed
qed

lemma enumerar_combinaciones_sin_zde:
  "enumerar_combinaciones red vs a \<noteq> Inl ZeroDivisionError"
proof (induction vs arbitrary: a)
  case Nil
  show ?case by simp
next
  case (Cons v vs)
  have ext: "\<And>xs acc. extender_con (\<lambda>valor. enumerar_combinaciones red vs (AList.update v valor a)) xs acc
       \<noteq> Inl ZeroDivisionError"
  proof -
    fix xs :: "valor list" and acc :: "asignacion list"
    show "extender_con (\<lambda>valor. enumerar_combinaciones red vs (AList.update v valor a)) xs acc
       \<noteq> Inl ZeroDivisionError"
      using Cons.IH by (induction xs arbitrary: acc) (auto split: sum.splits)
  qed
  show ?case using ext by (auto split: option.splits)
qed

lemma bucle_consulta_sin_zde:
  "fst (bucle_consulta m a red consulta evidencia ocultas vs resultados io) \<noteq> Inl ZeroDivisionError"
proof (induction vs arbitrary: resultados io)
  case Nil
  show ?case by simp
next
  case (Cons v vs)
  let ?base = "AList.update consulta v evidencia"
  show ?case
  proof (cases "enumerar_combinaciones red ocultas ?base")
    case (Inl e)
    then have "e \<noteq> ZeroDivisionError" using enumerar_combinaciones_sin_zde [of red ocultas ?base] by auto
    with Inl show ?thesis by (simp add: Let_def)
  next
    case (Inr combos)
    let ?s = "sumar_combinaciones m a red combos 0 0 (log_traza m a (CalculoPara consulta v) io)"
    show ?thesis
    proof (cases "fst ?s")
      case (Inl e)
      then have "e \<noteq> ZeroDivisionError" using sumar_combinaciones_sin_zde [of m a red combos 0 0] by auto
      with Inl Inr show ?thesis by (cases ?s) (simp add: Let_def)
    next
      case r: (Inr sv)
      obtain suma validas where "sv = (suma, validas)" by (cases sv)
      with r Inr Cons.IH show ?thesis by (cases ?s) (simp add: Let_def)
    qed
  qed
qed

lemma inferencia_desplegada:
  assumes "cpts red consulta = Some info"
  shows "\<exists>io3. inferencia_por_enumeracion red consulta evidencia mostrar archivo io =
     (case bucle_consulta mostrar archivo red consulta evidencia
             (ocultas_de red consulta evidencia) (valores info) [] io3 of
        (Inl e, io4) \<Rightarrow> (Inl e, io4)
      | (Inr resultados, io4) \<Rightarrow> normalizar mostrar archivo consulta evidencia resultados io4)"
proof -
  let ?oc = "ocultas_de red consulta evidencia"
  have "inferencia_por_enumeracion red consulta evidencia mostrar archivo io =
     (case bucle_consulta mostrar archivo red consulta evidencia ?oc (valores info) []
        (log_traza mostrar archivo (Formula consulta evidencia ?oc)
          (log_traza mostrar archivo CalculoConjuntas
            (log_traza mostrar archivo (ValoresPosibles consulta (valores info))
              (log_traza mostrar archivo (Evidencia evidencia)
                (log_traza mostrar archivo (Consulta consulta)
                  (log_traza mostrar archivo (VariablesOcultas ?oc)
                    (log_traza mostrar archivo (VariablesRed (variables red))
                      (abrir_traza archivo consulta evidencia io)))))))) of
        (Inl e, io4) \<Rightarrow> (Inl e, io4)
      | (Inr resultados, io4) \<Rightarrow> normalizar mostrar archivo consulta evidencia resultados io4)"
    using assms by (simp add: inferencia_por_enumeracion_def Let_def)
  then show ?thesis by (rule exI)
qed

lemma inferencia_suma_cero:
  assumes "cpts red consulta = Some info"
    and "fst (bucle_consulta mostrar archivo red consulta evidencia
               (ocultas_de red consulta evidencia) (valores info) [] io0) = Inr resultados"
    and "sum_list (map snd resultados) = 0"
  shows "fst (inferencia_por_enumeracion red consulta evidencia mostrar archivo io) = Inr None"
proof -
  from inferencia_desplegada [OF assms(1)] obtain io3 where
    d: "inferencia_por_enumeracion red consulta evidencia mostrar archivo io =
     (case bucle_consulta mostrar archivo red consulta evidencia
             (ocultas_de red consulta evidencia) (valores info) [] io3 of
        (Inl e, io4) \<Rightarrow> (Inl e, io4)
      | (Inr resultados, io4) \<Rightarrow> normalizar mostrar archivo consulta evidencia resultados io4)"
    by blast
  let ?b = "bucle_consulta mostrar archivo red consulta evidencia
             (ocultas_de red consulta evidencia) (valores info) [] io3"
  have "fst ?b = Inr resultados"
    using assms(2) bucle_consulta_sin_traza [of mostrar archivo red consulta evidencia _ _ _ io3 mostrar archivo io0]
    by simp
  then obtain io4 where b: "?b = (Inr resultados, io4)" by (cases ?b) simp
  show ?thesis
    unfolding d b using assms(3) by (simp add: normalizar_total_cero)
qed

text \<open>
  Claim C5. When the sums accumulated for the values of the query variable add up to
  exactly 0, the inference returns \<open>None\<close>, the outcome that stands for impossible
  evidence: not a dict of zeros, and not the exception of a division by zero (which no
  run of the inference raises, see \<open>inferencia_sin_division_por_cero\<close> below).
\<close>

theorem inferencia_evidencia_imposible:
  assumes "cpts red consulta = Some info"
    and "fst (bucle_consulta mostrar archivo red consulta evidencia
               (ocultas_de red consulta evidencia) (valores info) [] io0) = Inr resultados"
    and "sum_list (map snd resultados) = 0"
  shows "fst (inferencia_por_enumeracion red consulta evidencia mostrar archivo io) = Inr None
       \<and> fst (inferencia_por_enumeracion red consulta evidencia mostrar archivo io)
           \<noteq> Inl ZeroDivisionError"
  using inferencia_suma_cero [OF assms] by simp

lemma inferencia_sin_division_por_cero:
  "fst (inferencia_por_enumeracion red consulta evidencia mostrar archivo io)
     \<noteq> Inl ZeroDivisionError"
proof (cases "cpts red consulta")
  case None
  then show ?thesis by (simp add: inferencia_por_enumeracion_def Let_def)
next
  case (Some info)
  from inferencia_desplegada [OF Some] obtain io3 where
    d: "inferencia_por_enumeracion red consulta evidencia mostrar archivo io =
     (case bucle_consulta mostrar archivo red consulta evidencia
             (ocultas_de red consulta evidencia) (valores info) [] io3 of
        (Inl e, io4) \<Rightarrow> (Inl e, io4)
      | (Inr resultados, io4) \<Rightarrow> normalizar mostrar archivo consulta evidencia resultados io4)"
    by blast
  let ?b = "bucle_consulta mostrar archivo red consulta evidencia
             (ocultas_de red consulta evidencia) (valores info) [] io3"
  show ?thesis
  proof (cases "fst ?b")
    case (Inl e)
    then have "e \<noteq> ZeroDivisionError"
      using bucle_consulta_sin_zde [of mostrar archivo red consulta evidencia _ _ "[]" io3] by auto
    with Inl show ?thesis unfolding d by (cases ?b) simp
  next
    case (Inr rs)
    then show ?thesis unfolding d
      by (cases ?b) (simp add: normalizar_sin_division_por_cero)
  qed
qed

lemma conjunta_viejo:
  "map_of a ''Edad'' = Some ''viejo'' \<Longrightarrow>
   fst (calcular_probabilidad_conjunta red_ejemplo a) = Inr (0, [])"
  by (simp add: calcular_probabilidad_conjunta_def red_ejemplo_def obtener_probabilidad_def
      cpt_Edad_def fila_de_def Let_def)

lemma ocultas_ejemplo:
  "ocultas_de red_ejemplo ''Fumador'' [(''Edad'', ''viejo'')] = [''Ejercicio'']"
  by (simp add: ocultas_de_def red_ejemplo_def)

lemma valores_cpt_Ejercicio: "valores cpt_Ejercicio = [''poco'', ''moderado'']"
  by (simp add: valores_def columna_def unique_def cpt_Ejercicio_def fila_de_def)

lemma enumerar_Ejercicio:
  "enumerar_combinaciones red_ejemplo [''Ejercicio''] a =
     Inr [AList.update ''Ejercicio'' ''poco'' a, AList.update ''Ejercicio'' ''moderado'' a]"
  by (simp add: red_ejemplo_def valores_cpt_Ejercicio)

lemma bucle_viejo:
  "fst (bucle_consulta False None red_ejemplo ''Fumador'' [(''Edad'', ''viejo'')]
          [''Ejercicio''] [''si'', ''no''] [] io_vacia) = Inr [(''si'', 0), (''no'', 0)]"
  by (simp add: enumerar_Ejercicio conjunta_viejo Let_def del: enumerar_combinaciones.simps)

theorem inferencia_evidencia_imposible_witness:
  "fst (inferencia_por_enumeracion red_ejemplo ''Fumador'' [(''Edad'', ''viejo'')] True
          (Some ''traza.txt'') io_vacia) = Inr None"
proof -
  have h1: "cpts red_ejemplo ''Fumador'' = Some cpt_Fumador"
    by (simp add: red_ejemplo_def)
  have "fst (bucle_consulta False None red_ejemplo ''Fumador'' [(''Edad'', ''viejo'')]
          (ocultas_de red_ejemplo ''Fumador'' [(''Edad'', ''viejo'')]) (valores cpt_Fumador) []
          io_vacia) = Inr [(''si'', 0), (''no'', 0)]"
    by (simp only: ocultas_ejemplo valores_cpt_Fumador bucle_viejo)
  then have h2: "fst (bucle_consulta True (Some ''traza.txt'') red_ejemplo ''Fumador'' [(''Edad'', ''viejo'')]
          (ocultas_de red_ejemplo ''Fumador'' [(''Edad'', ''viejo'')]) (valores cpt_Fumador) []
          io_vacia) = Inr [(''si'', 0), (''no'', 0)]"
    using bucle_consulta_sin_traza [of True "Some ''traza.txt''" red_ejemplo "''Fumador''"
        "[(''Edad'', ''viejo'')]" _ _ "[]" io_vacia False None io_vacia]
    by simp
  have h3: "sum_list (map snd [(''si'', 0::real), (''no'', 0)]) = 0" by simp
  from inferencia_evidencia_imposible [OF h1 h2 h3, of io_vacia] show ?thesis
    by (rule conjunct1)
qed

section \<open>A variable with no registered CPT\<close>

lemma extender_con_Inl:
  "xs \<noteq> [] \<Longrightarrow> (\<And>x. f x = Inl e) \<Longrightarrow> extender_con f xs acc = Inl e"
  by (cases xs) simp_all

lemma enumerar_sin_cpt:
  "cpts red v = None \<Longrightarrow> (\<forall>u \<in> set antes. dominio red u \<noteq> []) \<Longrightarrow>
   enumerar_combinaciones red (antes @ v # despues) base = Inl (KeyError v)"
proof (induction antes arbitrary: base)
  case Nil
  then show ?case by simp
next
  case (Cons u us)
  from Cons.prems(2) have d: "dominio red u \<noteq> []" by simp
  then obtain info where info: "cpts red u = Some info" "valores info \<noteq> []"
    by (auto simp: dominio_def split: option.splits)
  have rec: "\<And>x. enumerar_combinaciones red (us @ v # despues) (AList.update u x base)
      = Inl (KeyError v)"
    using Cons.IH Cons.prems by simp
  show ?case
    by (simp add: info(1) rec extender_con_Inl [OF info(2)])
qed

lemma bucle_conjunta_error:
  "i < length vs \<Longrightarrow>
   (\<forall>j<i. \<exists>p. factor_de red a (vs ! j) = Inr p \<and> p \<noteq> 0) \<Longrightarrow>
   map_of a (vs ! i) = Some valor \<Longrightarrow>
   obtener_probabilidad red (vs ! i) valor (evidencia_de_padres red (vs ! i) a) = Inl e \<Longrightarrow>
   bucle_conjunta red a vs acc expl calls = (Inl e, calls @ take (Suc i) vs)"
proof (induction vs arbitrary: i acc expl calls)
  case Nil
  then show ?case by simp
next
  case (Cons v vs)
  show ?case
  proof (cases i)
    case 0
    with Cons.prems(3,4) show ?thesis by simp
  next
    case (Suc k)
    from Cons.prems(2) Suc obtain p where p: "factor_de red a v = Inr p" "p \<noteq> 0"
      by fastforce
    from p(1) obtain x info where v: "map_of a v = Some x"
      "obtener_probabilidad red v x (evidencia_de_padres red v a) = Inr p"
      "cpts red v = Some info"
      by (rule factor_de_Inr)
    have k: "k < length vs" using Cons.prems(1) Suc by simp
    have pre: "\<forall>j<k. \<exists>p. factor_de red a (vs ! j) = Inr p \<and> p \<noteq> 0"
      using Cons.prems(2) Suc by fastforce
    have m: "map_of a (vs ! k) = Some valor" using Cons.prems(3) Suc by simp
    have o: "obtener_probabilidad red (vs ! k) valor (evidencia_de_padres red (vs ! k) a) = Inl e"
      using Cons.prems(4) Suc by simp
    show ?thesis
      using v p(2) Suc Cons.IH [OF k pre m o] by simp
  qed
qed

text \<open>
  Claim C7, as the code has it. For a variable \<open>v\<close> with no registered CPT: the lookup
  raises ValueError; the enumeration raises KeyError when it reaches \<open>v\<close>, which it does
  when every hidden variable listed before \<open>v\<close> has a non-empty domain; the joint
  evaluation raises ValueError when it reaches \<open>v\<close>, which it does when \<open>v\<close> is assigned
  and every variable before it in \<open>todas_variables\<close> has a nonzero factor; and an
  inference whose query variable is \<open>v\<close> raises KeyError after the four opening messages
  of the trace, before any value is enumerated or any joint probability evaluated.
\<close>

theorem sin_cpt_falla:
  assumes "cpts red v = None"
  shows "obtener_probabilidad red v x ev = Inl (ValueError v)
    \<and> ((\<forall>u \<in> set antes. dominio red u \<noteq> []) \<longrightarrow>
         enumerar_combinaciones red (antes @ v # despues) base = Inl (KeyError v))
    \<and> (i < length (variables red) \<and> variables red ! i = v \<and> map_of a v \<noteq> None
         \<and> (\<forall>j<i. \<exists>p. factor_de red a (variables red ! j) = Inr p \<and> p \<noteq> 0) \<longrightarrow>
         calcular_probabilidad_conjunta red a =
           (Inl (ValueError v), take (Suc i) (variables red)))
    \<and> inferencia_por_enumeracion red v evidencia mostrar archivo io =
         (Inl (KeyError v),
          log_traza mostrar archivo (Evidencia evidencia)
            (log_traza mostrar archivo (Consulta v)
              (log_traza mostrar archivo (VariablesOcultas (ocultas_de red v evidencia))
                (log_traza mostrar archivo (VariablesRed (variables red))
                  (abrir_traza archivo v evidencia io)))))"
proof -
  have 1: "\<And>y e. obtener_probabilidad red v y e = Inl (ValueError v)"
    using assms by (simp add: obtener_probabilidad_def)
  have 2: "(\<forall>u \<in> set antes. dominio red u \<noteq> []) \<longrightarrow>
         enumerar_combinaciones red (antes @ v # despues) base = Inl (KeyError v)"
    using assms by (auto intro: enumerar_sin_cpt)
  have 3: "i < length (variables red) \<and> variables red ! i = v \<and> map_of a v \<noteq> None
         \<and> (\<forall>j<i. \<exists>p. factor_de red a (variables red ! j) = Inr p \<and> p \<noteq> 0) \<longrightarrow>
         calcular_probabilidad_conjunta red a =
           (Inl (ValueError v), take (Suc i) (variables red))"
  proof (intro impI, elim conjE)
    assume i: "i < length (variables red)" and vi: "variables red ! i = v"
      and m: "map_of a v \<noteq> None"
      and pre: "\<forall>j<i. \<exists>p. factor_de red a (variables red ! j) = Inr p \<and> p \<noteq> 0"
    from m obtain valor where valor: "map_of a (variables red ! i) = Some valor"
      using vi by auto
    have o: "obtener_probabilidad red (variables red ! i) valor
        (evidencia_de_padres red (variables red ! i) a) = Inl (ValueError v)"
      using 1 vi by simp
    show "calcular_probabilidad_conjunta red a =
           (Inl (ValueError v), take (Suc i) (variables red))"
      unfolding calcular_probabilidad_conjunta_def
      using bucle_conjunta_error [OF i pre valor o, of 1 "[]" "[]"] by simp
  qed
  have 4: "inferencia_por_enumeracion red v evidencia mostrar archivo io =
         (Inl (KeyError v),
          log_traza mostrar archivo (Evidencia evidencia)
            (log_traza mostrar archivo (Consulta v)
              (log_traza mostrar archivo (VariablesOcultas (ocultas_de red v evidencia))
                (log_traza mostrar archivo (VariablesRed (variables red))
                  (abrir_traza archivo v evidencia io)))))"
    using assms by (simp add: inferencia_por_enumeracion_def Let_def)
  from 1 2 3 4 show ?thesis by blast
qed

lemma cpts_red_sin_cpt:
  "cpts red_sin_cpt ''Edad'' = Some cpt_Edad"
  "cpts red_sin_cpt ''Fumador'' = Some cpt_Fumador"
  "cpts red_sin_cpt ''Ejercicio'' = None"
  by (simp_all add: red_sin_cpt_def)

lemma conjunta_viejo_sin_cpt:
  "map_of a ''Edad'' = Some ''viejo'' \<Longrightarrow>
   fst (calcular_probabilidad_conjunta red_sin_cpt a) = Inr (0, [])"
  by (simp add: calcular_probabilidad_conjunta_def red_sin_cpt_def obtener_probabilidad_def
      cpt_Edad_def fila_de_def Let_def)

text \<open>
  The claim as stated fails: \<open>Ejercicio\<close> is a variable of the network below and has no
  CPT, yet the query \<open>P(Fumador | Edad=viejo, Ejercicio=poco)\<close> returns \<open>None\<close>. The
  factor of \<open>Edad\<close> is 0 for every combination, so the joint evaluation stops before it
  looks \<open>Ejercicio\<close> up.
\<close>

theorem sin_cpt_counterexample:
  "''Ejercicio'' \<in> set (variables red_sin_cpt) \<and> cpts red_sin_cpt ''Ejercicio'' = None
   \<and> fst (inferencia_por_enumeracion red_sin_cpt ''Fumador''
            [(''Edad'', ''viejo''), (''Ejercicio'', ''poco'')] False None io_vacia) = Inr None"
proof -
  let ?ev = "[(''Edad'', ''viejo''), (''Ejercicio'', ''poco'')]"
  have o: "ocultas_de red_sin_cpt ''Fumador'' ?ev = []"
    by (simp add: ocultas_de_def red_sin_cpt_def)
  have v: "valores cpt_Fumador = [''si'', ''no'']" by (rule valores_cpt_Fumador)
  have b: "fst (bucle_consulta False None red_sin_cpt ''Fumador'' ?ev
                 (ocultas_de red_sin_cpt ''Fumador'' ?ev) (valores cpt_Fumador) [] io_vacia)
      = Inr [(''si'', 0), (''no'', 0)]"
    unfolding o v by (simp add: conjunta_viejo_sin_cpt Let_def)
  have z: "sum_list (map snd [(''si'', 0::real), (''no'', 0)]) = 0" by simp
  have "fst (inferencia_por_enumeracion red_sin_cpt ''Fumador'' ?ev False None io_vacia) = Inr None"
    using inferencia_suma_cero [OF cpts_red_sin_cpt(2) b z] .
  then show ?thesis by (simp add: red_sin_cpt_def)
qed

lemma dominio_Edad_sin_cpt: "dominio red_sin_cpt ''Edad'' = [''joven'', ''adulto'']"
  by (simp add: dominio_def cpts_red_sin_cpt valores_cpt_Edad)

lemma factor_Edad_sin_cpt:
  "factor_de red_sin_cpt [(''Edad'', ''adulto''), (''Fumador'', ''si''), (''Ejercicio'', ''poco'')]
     ''Edad'' = Inr (7/10)"
  by (simp add: factor_de_def obtener_probabilidad_def red_sin_cpt_def cpt_Edad_def fila_de_def
      evidencia_de_padres_def)

lemma factor_Fumador_sin_cpt:
  "factor_de red_sin_cpt [(''Edad'', ''adulto''), (''Fumador'', ''si''), (''Ejercicio'', ''poco'')]
     ''Fumador'' = Inr (2/5)"
  by (simp add: factor_de_def obtener_probabilidad_def red_sin_cpt_def cpt_Fumador_def fila_de_def
      evidencia_de_padres_def mascara_padres_def estrechar_def seleccionar_def)

theorem sin_cpt_falla_witness:
  "obtener_probabilidad red_sin_cpt ''Ejercicio'' ''poco'' [] = Inl (ValueError ''Ejercicio'')
   \<and> enumerar_combinaciones red_sin_cpt [''Edad'', ''Ejercicio'', ''Fumador''] []
       = Inl (KeyError ''Ejercicio'')
   \<and> calcular_probabilidad_conjunta red_sin_cpt
        [(''Edad'', ''adulto''), (''Fumador'', ''si''), (''Ejercicio'', ''poco'')]
       = (Inl (ValueError ''Ejercicio''), [''Edad'', ''Fumador'', ''Ejercicio''])
   \<and> fst (inferencia_por_enumeracion red_sin_cpt ''Ejercicio'' [] False None io_vacia)
       = Inl (KeyError ''Ejercicio'')"
proof -
  let ?a = "[(''Edad'', ''adulto''), (''Fumador'', ''si''), (''Ejercicio'', ''poco'')]"
  have vs: "variables red_sin_cpt = [''Edad'', ''Fumador'', ''Ejercicio'']"
    by (simp add: red_sin_cpt_def)
  note t = sin_cpt_falla [OF cpts_red_sin_cpt(3), of "''poco''" "[]" "[''Edad'']" "[''Fumador'']"
      "[]" 2 ?a "[]" False None io_vacia]
  have h2: "\<forall>u \<in> set [''Edad'']. dominio red_sin_cpt u \<noteq> []"
    by (simp add: dominio_Edad_sin_cpt)
  have pre: "\<forall>j<2. \<exists>p. factor_de red_sin_cpt ?a (variables red_sin_cpt ! j) = Inr p \<and> p \<noteq> 0"
  proof (intro allI impI)
    fix j :: nat
    assume "j < 2"
    then consider "j = 0" | "j = 1" by linarith
    then show "\<exists>p. factor_de red_sin_cpt ?a (variables red_sin_cpt ! j) = Inr p \<and> p \<noteq> 0"
    proof cases
      case 1
      then show ?thesis by (intro exI [of _ "7/10"]) (simp add: vs factor_Edad_sin_cpt)
    next
      case 2
      then show ?thesis by (intro exI [of _ "2/5"]) (simp add: vs factor_Fumador_sin_cpt)
    qed
  qed
  have h3: "2 < length (variables red_sin_cpt) \<and> variables red_sin_cpt ! 2 = ''Ejercicio''
      \<and> map_of ?a ''Ejercicio'' \<noteq> None
      \<and> (\<forall>j<2. \<exists>p. factor_de red_sin_cpt ?a (variables red_sin_cpt ! j) = Inr p \<and> p \<noteq> 0)"
    using pre by (simp add: vs)
  from t have 1: "obtener_probabilidad red_sin_cpt ''Ejercicio'' ''poco'' [] = Inl (ValueError ''Ejercicio'')"
    by (rule conjunct1)
  from t h2 have 2: "enumerar_combinaciones red_sin_cpt ([''Edad''] @ ''Ejercicio'' # [''Fumador'']) []
       = Inl (KeyError ''Ejercicio'')"
    by blast
  from t h3 have 3: "calcular_probabilidad_conjunta red_sin_cpt ?a =
      (Inl (ValueError ''Ejercicio''), take (Suc 2) (variables red_sin_cpt))"
    by blast
  from t have 4: "fst (inferencia_por_enumeracion red_sin_cpt ''Ejercicio'' [] False None io_vacia)
       = Inl (KeyError ''Ejercicio'')"
    by simp
  from 1 2 3 4 show ?thesis by (simp add: vs)
qed

section \<open>The order of the variables\<close>













































section \<open>The dicts as objects: the evidence is not mutated\<close>

text \<open>
  The model above passes dicts by value. In Python \<open>evidencia\<close>, \<open>asignacion_base\<close>,
  \<open>asignacion_actual\<close> and \<open>nueva_asignacion\<close> are references to dict objects, and an
  assignment \<open>d[k] = v\<close> changes the object for every holder of a reference. Here the
  dict objects live in a memory, a list indexed by address: \<open>d.copy()\<close> allocates a new
  object at the end, \<open>d[k] = v\<close> updates the object at the address of \<open>d\<close> in place.
  A reference held by the program is always the address of an allocated object.
\<close>

type_synonym direccion = nat
type_synonym memoria = "asignacion list"

definition copiar :: "direccion \<Rightarrow> memoria \<Rightarrow> direccion \<times> memoria" where
  "copiar d mem = (length mem, mem @ [mem ! d])"

definition asignar :: "direccion \<Rightarrow> variable \<Rightarrow> valor \<Rightarrow> memoria \<Rightarrow> memoria" where
  "asignar d k v mem = mem[d := AList.update k v (mem ! d)]"

text \<open>
  Lines 174-192 and 196-216 again, on addresses. The loops are those of the value model;
  every \<open>.copy()\<close> and every item assignment is explicit and the memory is threaded
  through. The joint evaluation only reads the combination it is given (its dict
  \<open>evidencia_padres\<close> is a fresh local object). The trace reads the dicts to format its
  messages and keeps no reference, so it is left out here; the result does not depend on
  it.
\<close>

fun extender_con_mem ::
  "(valor \<Rightarrow> memoria \<Rightarrow> (error + direccion list) \<times> memoria) \<Rightarrow> valor list \<Rightarrow> direccion list
     \<Rightarrow> memoria \<Rightarrow> (error + direccion list) \<times> memoria" where
  "extender_con_mem f [] combinaciones mem = (Inr combinaciones, mem)"
| "extender_con_mem f (valor # resto) combinaciones mem =
     (case f valor mem of
        (Inl e, mem') \<Rightarrow> (Inl e, mem')
      | (Inr nuevas, mem') \<Rightarrow> extender_con_mem f resto (combinaciones @ nuevas) mem')"

fun enumerar_combinaciones_mem ::
  "red_bayesiana \<Rightarrow> variable list \<Rightarrow> direccion \<Rightarrow> memoria
     \<Rightarrow> (error + direccion list) \<times> memoria" where
  "enumerar_combinaciones_mem red [] asignacion_actual mem =
     (case copiar asignacion_actual mem of (copia, mem') \<Rightarrow> (Inr [copia], mem'))"
| "enumerar_combinaciones_mem red (variable_actual # resto) asignacion_actual mem =
     (case cpts red variable_actual of
        None \<Rightarrow> (Inl (KeyError variable_actual), mem)
      | Some info \<Rightarrow>
          extender_con_mem
            (\<lambda>valor mem1.
               case copiar asignacion_actual mem1 of
                 (nueva_asignacion, mem2) \<Rightarrow>
                   enumerar_combinaciones_mem red resto nueva_asignacion
                     (asignar nueva_asignacion variable_actual valor mem2))
            (valores info) [] mem)"

fun sumar_combinaciones_mem ::
  "red_bayesiana \<Rightarrow> direccion list \<Rightarrow> real \<Rightarrow> memoria \<Rightarrow> error + real" where
  "sumar_combinaciones_mem red [] suma_probabilidad mem = Inr suma_probabilidad"
| "sumar_combinaciones_mem red (combinacion # resto) suma_probabilidad mem =
     (case fst (calcular_probabilidad_conjunta red (mem ! combinacion)) of
        Inl e \<Rightarrow> Inl e
      | Inr (prob, explicacion) \<Rightarrow>
          if prob > 0 then sumar_combinaciones_mem red resto (suma_probabilidad + prob) mem
          else sumar_combinaciones_mem red resto suma_probabilidad mem)"

fun bucle_consulta_mem ::
  "red_bayesiana \<Rightarrow> variable \<Rightarrow> direccion \<Rightarrow> variable list \<Rightarrow> valor list
     \<Rightarrow> (valor \<times> real) list \<Rightarrow> memoria \<Rightarrow> (error + (valor \<times> real) list) \<times> memoria" where
  "bucle_consulta_mem red consulta evidencia variables_ocultas [] resultados mem =
     (Inr resultados, mem)"
| "bucle_consulta_mem red consulta evidencia variables_ocultas (valor_consulta # resto)
     resultados mem =
     (case copiar evidencia mem of
        (asignacion_base, mem1) \<Rightarrow>
          (case enumerar_combinaciones_mem red variables_ocultas asignacion_base
                  (asignar asignacion_base consulta valor_consulta mem1) of
             (Inl e, mem2) \<Rightarrow> (Inl e, mem2)
           | (Inr combinaciones, mem2) \<Rightarrow>
               (case sumar_combinaciones_mem red combinaciones 0 mem2 of
                  Inl e \<Rightarrow> (Inl e, mem2)
                | Inr suma_probabilidad \<Rightarrow>
                    bucle_consulta_mem red consulta evidencia variables_ocultas resto
                      (AList.update valor_consulta suma_probabilidad resultados) mem2)))"

definition inferencia_por_enumeracion_mem ::
  "red_bayesiana \<Rightarrow> variable \<Rightarrow> direccion \<Rightarrow> memoria
     \<Rightarrow> (error + (valor \<times> real) list option) \<times> memoria" where
  "inferencia_por_enumeracion_mem red consulta evidencia mem =
     (case cpts red consulta of
        None \<Rightarrow> (Inl (KeyError consulta), mem)
      | Some info \<Rightarrow>
          (case bucle_consulta_mem red consulta evidencia
                  (ocultas_de red consulta (mem ! evidencia)) (valores info) [] mem of
             (Inl e, mem') \<Rightarrow> (Inl e, mem')
           | (Inr resultados, mem') \<Rightarrow>
               (fst (normalizar False None consulta (mem' ! evidencia) resultados io_vacia),
                mem')))"

lemma prefix_copiar: "prefix mem (snd (copiar d mem))"
  by (simp add: copiar_def)

lemma prefix_asignar_nueva:
  assumes "prefix mem mem'" and "length mem \<le> d"
  shows "prefix mem (asignar d k v mem')"
proof -
  from assms(1) obtain zs where "mem' = mem @ zs" by (auto elim: prefixE)
  then show ?thesis using assms(2) by (simp add: asignar_def list_update_append)
qed

lemma prefix_copiar_asignar:
  "copiar d mem = (nueva, mem2) \<Longrightarrow> prefix mem (asignar nueva k v mem2)"
  by (auto simp: copiar_def intro: prefix_asignar_nueva)

lemma prefix_extender_con_mem:
  assumes "\<And>valor mem1. prefix mem1 (snd (f valor mem1))"
  shows "prefix mem (snd (extender_con_mem f vs acc mem))"
proof (induction vs arbitrary: acc mem)
  case Nil
  show ?case by simp
next
  case (Cons v vs)
  obtain r mem' where f: "f v mem = (r, mem')" by (cases "f v mem")
  have p: "prefix mem mem'" using assms [of mem v] f by simp
  show ?case
  proof (cases r)
    case (Inl e)
    with f p show ?thesis by simp
  next
    case (Inr nuevas)
    have "prefix mem' (snd (extender_con_mem f vs (acc @ nuevas) mem'))" by (rule Cons.IH)
    with p have "prefix mem (snd (extender_con_mem f vs (acc @ nuevas) mem'))"
      by (rule prefix_order.trans)
    with f Inr show ?thesis by simp
  qed
qed

lemma prefix_enumerar_combinaciones_mem:
  "prefix mem (snd (enumerar_combinaciones_mem red vs actual mem))"
proof (induction vs arbitrary: actual mem)
  case Nil
  show ?case by (simp add: copiar_def)
next
  case (Cons v vs)
  show ?case
  proof (cases "cpts red v")
    case None
    then show ?thesis by simp
  next
    case (Some info)
    have paso: "prefix mem1 (snd (case copiar actual mem1 of
         (nueva_asignacion, mem2) \<Rightarrow>
           enumerar_combinaciones_mem red vs nueva_asignacion
             (asignar nueva_asignacion v valor mem2)))" for valor mem1
    proof -
      obtain nueva mem2 where c: "copiar actual mem1 = (nueva, mem2)" by (cases "copiar actual mem1")
      have "prefix mem1 (asignar nueva v valor mem2)" using c by (rule prefix_copiar_asignar)
      moreover have "prefix (asignar nueva v valor mem2)
          (snd (enumerar_combinaciones_mem red vs nueva (asignar nueva v valor mem2)))"
        by (rule Cons.IH)
      ultimately show ?thesis using c by (simp add: prefix_order.trans)
    qed
    show ?thesis
      using prefix_extender_con_mem [of _ mem "valores info" "[]", OF paso]
      by (simp add: Some)
  qed
qed

lemma prefix_bucle_consulta_mem:
  "prefix mem (snd (bucle_consulta_mem red consulta evidencia ocultas vs resultados mem))"
proof (induction vs arbitrary: resultados mem)
  case Nil
  show ?case by simp
next
  case (Cons v vs)
  obtain base mem1 where c: "copiar evidencia mem = (base, mem1)" by (cases "copiar evidencia mem")
  let ?mem1 = "asignar base consulta v mem1"
  have p1: "prefix mem ?mem1" using c by (rule prefix_copiar_asignar)
  obtain r mem2 where e: "enumerar_combinaciones_mem red ocultas base ?mem1 = (r, mem2)"
    by (cases "enumerar_combinaciones_mem red ocultas base ?mem1")
  have "prefix ?mem1 mem2"
    using prefix_enumerar_combinaciones_mem [of ?mem1 red ocultas base] e by simp
  with p1 have p2: "prefix mem mem2" by (rule prefix_order.trans)
  show ?case
  proof (cases r)
    case (Inl err)
    with c e p2 show ?thesis by simp
  next
    case (Inr combinaciones)
    show ?thesis
    proof (cases "sumar_combinaciones_mem red combinaciones 0 mem2")
      case (Inl err)
      with c e Inr p2 show ?thesis by simp
    next
      case s: (Inr suma)
      have "prefix mem2 (snd (bucle_consulta_mem red consulta evidencia ocultas vs
          (AList.update v suma resultados) mem2))"
        by (rule Cons.IH)
      with p2 have "prefix mem (snd (bucle_consulta_mem red consulta evidencia ocultas vs
          (AList.update v suma resultados) mem2))"
        by (rule prefix_order.trans)
      with c e Inr s show ?thesis by simp
    qed
  qed
qed

lemma prefix_inferencia_mem:
  "prefix mem (snd (inferencia_por_enumeracion_mem red consulta evidencia mem))"
proof (cases "cpts red consulta")
  case None
  then show ?thesis by (simp add: inferencia_por_enumeracion_mem_def)
next
  case (Some info)
  let ?b = "bucle_consulta_mem red consulta evidencia
      (ocultas_de red consulta (mem ! evidencia)) (valores info) [] mem"
  obtain r mem' where b: "?b = (r, mem')" by (cases ?b)
  have "prefix mem mem'"
    using prefix_bucle_consulta_mem [of mem red consulta evidencia
        "ocultas_de red consulta (mem ! evidencia)" "valores info" "[]"] b
    by simp
  with b Some show ?thesis
    by (cases r) (simp_all add: inferencia_por_enumeracion_mem_def)
qed

lemma prefix_nth: "prefix xs ys \<Longrightarrow> i < length xs \<Longrightarrow> ys ! i = xs ! i"
  by (auto elim!: prefixE simp: nth_append)

lemma copiar_asignar_append:
  "copiar d mem = (nueva, mem2) \<Longrightarrow>
   nueva = length mem \<and> asignar nueva k v mem2 = mem @ [AList.update k v (mem ! d)]"
  by (auto simp: copiar_def asignar_def)

text \<open>
  The result of the enumeration on addresses stands for a result on values: the same
  exception, or addresses of allocated objects whose contents are the combinations.
\<close>

definition representa :: "memoria \<Rightarrow> error + direccion list \<Rightarrow> error + asignacion list \<Rightarrow> bool" where
  "representa mem r rv =
     (case r of
        Inl e \<Rightarrow> rv = Inl e
      | Inr ds \<Rightarrow> list_all (\<lambda>d. d < length mem) ds \<and> rv = Inr (map ((!) mem) ds))"

lemma map_nth_prefix:
  "prefix m1 m2 \<Longrightarrow> list_all (\<lambda>d. d < length m1) ds \<Longrightarrow>
   list_all (\<lambda>d. d < length m2) ds \<and> map ((!) m2) ds = map ((!) m1) ds"
  by (induction ds) (auto dest: prefix_length_le simp: prefix_nth)

lemma extender_con_mem_representa:
  assumes paso: "\<And>valor m1 r1 m2. prefix mem m1 \<Longrightarrow> F valor m1 = (r1, m2) \<Longrightarrow>
             prefix m1 m2 \<and> representa m2 r1 (G valor)"
  shows "prefix mem m1 \<Longrightarrow> list_all (\<lambda>d. d < length m1) acc \<Longrightarrow>
         extender_con_mem F vs acc m1 = (r, m') \<Longrightarrow>
         representa m' r (extender_con G vs (map ((!) m1) acc))"
proof (induction vs arbitrary: acc m1)
  case Nil
  then show ?case by (auto simp: representa_def)
next
  case (Cons v vs)
  obtain r1 m2 where f: "F v m1 = (r1, m2)" by (cases "F v m1")
  from paso [OF Cons.prems(1) f] have p12: "prefix m1 m2" and rep: "representa m2 r1 (G v)"
    by simp_all
  show ?case
  proof (cases r1)
    case (Inl e)
    with rep have "G v = Inl e" by (simp add: representa_def)
    moreover from Cons.prems(3) f Inl have "r = Inl e" by simp
    ultimately show ?thesis by (simp add: representa_def)
  next
    case (Inr nuevas)
    with rep have n: "list_all (\<lambda>d. d < length m2) nuevas" and g: "G v = Inr (map ((!) m2) nuevas)"
      by (simp_all add: representa_def)
    from map_nth_prefix [OF p12 Cons.prems(2)] have
      a: "list_all (\<lambda>d. d < length m2) acc" and av: "map ((!) m2) acc = map ((!) m1) acc"
      by simp_all
    have pm: "prefix mem m2" using Cons.prems(1) p12 by (rule prefix_order.trans)
    have an: "list_all (\<lambda>d. d < length m2) (acc @ nuevas)" using a n by simp
    from Cons.prems(3) f Inr have "extender_con_mem F vs (acc @ nuevas) m2 = (r, m')" by simp
    from Cons.IH [OF pm an this]
    have "representa m' r (extender_con G vs (map ((!) m2) (acc @ nuevas)))" .
    then show ?thesis by (simp add: g av)
  qed
qed

lemma enumerar_combinaciones_mem_representa:
  "actual < length mem \<Longrightarrow> enumerar_combinaciones_mem red vs actual mem = (r, mem') \<Longrightarrow>
   representa mem' r (enumerar_combinaciones red vs (mem ! actual))"
proof (induction vs arbitrary: actual mem r mem')
  case Nil
  then show ?case by (auto simp: copiar_def representa_def nth_append)
next
  case (Cons v vs)
  show ?case
  proof (cases "cpts red v")
    case None
    with Cons.prems(2) show ?thesis by (auto simp: representa_def)
  next
    case (Some info)
    let ?F = "\<lambda>valor mem1. case copiar actual mem1 of
         (nueva_asignacion, mem2) \<Rightarrow>
           enumerar_combinaciones_mem red vs nueva_asignacion
             (asignar nueva_asignacion v valor mem2)"
    let ?G = "\<lambda>valor. enumerar_combinaciones red vs (AList.update v valor (mem ! actual))"
    have paso: "prefix m1 m2 \<and> representa m2 r1 (?G valor)"
      if p: "prefix mem m1" and f: "?F valor m1 = (r1, m2)" for valor m1 r1 m2
    proof -
      let ?m3 = "m1 @ [AList.update v valor (m1 ! actual)]"
      have f': "enumerar_combinaciones_mem red vs (length m1) ?m3 = (r1, m2)"
        using f by (simp add: copiar_def asignar_def)
      have a: "m1 ! actual = mem ! actual" using p Cons.prems(1) by (rule prefix_nth)
      have "representa m2 r1 (enumerar_combinaciones red vs (?m3 ! length m1))"
        using f' by (intro Cons.IH) simp_all
      then have 1: "representa m2 r1 (?G valor)" by (simp add: a)
      have "prefix ?m3 m2"
        using prefix_enumerar_combinaciones_mem [of ?m3 red vs "length m1"] f' by simp
      then have 2: "prefix m1 m2" by (rule append_prefixD)
      from 1 2 show ?thesis by simp
    qed
    have e: "extender_con_mem ?F (valores info) [] mem = (r, mem')"
      using Cons.prems(2) Some by simp
    have "representa mem' r (extender_con ?G (valores info) (map ((!) mem) []))"
      using paso by (intro extender_con_mem_representa [where F = ?F and mem = mem, OF _ _ _ e])
        simp_all
    then show ?thesis by (simp add: Some)
  qed
qed

lemma sumar_combinaciones_mem_valor:
  "sumar_combinaciones_mem red ds s mem =
     (case fst (sumar_combinaciones mostrar archivo red (map ((!) mem) ds) s n io) of
        Inl e \<Rightarrow> Inl e
      | Inr (suma, validas) \<Rightarrow> Inr suma)"
proof (induction ds arbitrary: s n io)
  case Nil
  show ?case by simp
next
  case (Cons d ds)
  show ?case
  proof (cases "fst (calcular_probabilidad_conjunta red (mem ! d))")
    case (Inl e)
    then show ?thesis by simp
  next
    case (Inr pe)
    obtain prob expl where pe: "pe = (prob, expl)" by (cases pe)
    show ?thesis using Inr pe Cons.IH by (cases "prob > 0") simp_all
  qed
qed

lemma bucle_consulta_mem_valor:
  "evidencia < length mem0 \<Longrightarrow> prefix mem0 mem \<Longrightarrow>
   fst (bucle_consulta_mem red consulta evidencia ocultas vs rs mem) =
   fst (bucle_consulta mostrar archivo red consulta (mem0 ! evidencia) ocultas vs rs io)"
proof (induction vs arbitrary: rs mem io)
  case Nil
  show ?case by simp
next
  case (Cons v vs)
  let ?E = "mem0 ! evidencia"
  let ?m1 = "mem @ [AList.update consulta v ?E]"
  let ?io1 = "log_traza mostrar archivo (CalculoPara consulta v) io"
  have ev: "mem ! evidencia = ?E" using Cons.prems(2,1) by (rule prefix_nth)
  obtain r m2 where e: "enumerar_combinaciones_mem red ocultas (length mem) ?m1 = (r, m2)"
    by (cases "enumerar_combinaciones_mem red ocultas (length mem) ?m1")
  have paso: "bucle_consulta_mem red consulta evidencia ocultas (v # vs) rs mem =
     (case r of
        Inl err \<Rightarrow> (Inl err, m2)
      | Inr combinaciones \<Rightarrow>
          (case sumar_combinaciones_mem red combinaciones 0 m2 of
             Inl err \<Rightarrow> (Inl err, m2)
           | Inr suma \<Rightarrow>
               bucle_consulta_mem red consulta evidencia ocultas vs (AList.update v suma rs) m2))"
    using e by (simp add: copiar_def asignar_def ev split: sum.splits)
  have rep: "representa m2 r (enumerar_combinaciones red ocultas (AList.update consulta v ?E))"
    using enumerar_combinaciones_mem_representa [of "length mem" ?m1 red ocultas r m2] e by simp
  have "prefix ?m1 m2"
    using prefix_enumerar_combinaciones_mem [of ?m1 red ocultas "length mem"] e by simp
  then have "prefix mem m2" by (rule append_prefixD)
  with Cons.prems(2) have p02: "prefix mem0 m2" by (rule prefix_order.trans)
  show ?case
  proof (cases r)
    case (Inl err)
    with rep have "enumerar_combinaciones red ocultas (AList.update consulta v ?E) = Inl err"
      by (simp add: representa_def)
    with Inl show ?thesis unfolding paso by (simp add: Let_def)
  next
    case (Inr ds)
    with rep have en: "enumerar_combinaciones red ocultas (AList.update consulta v ?E) =
        Inr (map ((!) m2) ds)"
      by (simp add: representa_def)
    let ?s = "sumar_combinaciones mostrar archivo red (map ((!) m2) ds) 0 0 ?io1"
    note sm = sumar_combinaciones_mem_valor [of red ds 0 m2 mostrar archivo 0 ?io1]
    obtain res io2 where s: "?s = (res, io2)" by (cases ?s)
    show ?thesis
    proof (cases res)
      case (Inl err)
      with s sm have "sumar_combinaciones_mem red ds 0 m2 = Inl err" by simp
      with Inl Inr s en show ?thesis unfolding paso by (simp add: Let_def)
    next
      case r2: (Inr sv)
      obtain suma validas where sv: "sv = (suma, validas)" by (cases sv)
      with s sm r2 have sm': "sumar_combinaciones_mem red ds 0 m2 = Inr suma" by simp
      have "fst (bucle_consulta_mem red consulta evidencia ocultas vs (AList.update v suma rs) m2) =
        fst (bucle_consulta mostrar archivo red consulta ?E ocultas vs (AList.update v suma rs)
          (log_traza mostrar archivo (CombinacionesValidas validas)
             (log_traza mostrar archivo (SumaPara consulta v suma) io2)))"
        using Cons.prems(1) p02 by (rule Cons.IH)
      with Inr s en r2 sv sm' show ?thesis unfolding paso by (simp add: Let_def)
    qed
  qed
qed

lemma inferencia_mem_valor:
  assumes "evidencia < length mem"
  shows "fst (inferencia_por_enumeracion_mem red consulta evidencia mem) =
         fst (inferencia_por_enumeracion red consulta (mem ! evidencia) mostrar archivo io)"
proof (cases "cpts red consulta")
  case None
  then show ?thesis
    by (simp add: inferencia_por_enumeracion_mem_def inferencia_por_enumeracion_def Let_def)
next
  case (Some info)
  let ?E = "mem ! evidencia"
  from inferencia_desplegada [OF Some, of ?E mostrar archivo io] obtain io3 where
    d: "inferencia_por_enumeracion red consulta ?E mostrar archivo io =
     (case bucle_consulta mostrar archivo red consulta ?E
             (ocultas_de red consulta ?E) (valores info) [] io3 of
        (Inl e, io4) \<Rightarrow> (Inl e, io4)
      | (Inr resultados, io4) \<Rightarrow> normalizar mostrar archivo consulta ?E resultados io4)"
    by blast
  let ?bm = "bucle_consulta_mem red consulta evidencia (ocultas_de red consulta ?E) (valores info) [] mem"
  let ?bv = "bucle_consulta mostrar archivo red consulta ?E (ocultas_de red consulta ?E) (valores info) [] io3"
  have eq: "fst ?bm = fst ?bv"
    using assms by (intro bucle_consulta_mem_valor) simp_all
  obtain rm mem' where bm: "?bm = (rm, mem')" by (cases ?bm)
  obtain rv io4 where bv: "?bv = (rv, io4)" by (cases ?bv)
  from eq bm bv have rr: "rv = rm" by simp
  have "prefix mem mem'"
    using prefix_bucle_consulta_mem [of mem red consulta evidencia
        "ocultas_de red consulta ?E" "valores info" "[]"] bm by simp
  then have ev: "mem' ! evidencia = ?E" using assms by (rule prefix_nth)
  show ?thesis
  proof (cases rm)
    case (Inl e)
    with bm bv rr Some show ?thesis unfolding d
      by (simp add: inferencia_por_enumeracion_mem_def)
  next
    case (Inr rs)
    with bm bv rr Some ev show ?thesis unfolding d
      using normalizar_sin_traza [of False None consulta ?E rs io_vacia mostrar archivo io4]
      by (simp add: inferencia_por_enumeracion_mem_def)
  qed
qed

text \<open>
  Claim C10. The inference leaves the caller's evidence dict as it was at the call: it
  only allocates new dicts (the copy of the evidence for each query value, the copy of the
  current assignment at each step of the recursion) and assigns only into those, so every
  object that existed at the call, the evidence among them, is unchanged when the inference
  returns a distribution, returns \<open>None\<close> or raises. The result is the one of the value
  model run on the content of the evidence dict.
\<close>

theorem evidencia_intacta:
  assumes "evidencia < length mem"
  shows "snd (inferencia_por_enumeracion_mem red consulta evidencia mem) ! evidencia
           = mem ! evidencia
       \<and> take (length mem) (snd (inferencia_por_enumeracion_mem red consulta evidencia mem))
           = mem
       \<and> fst (inferencia_por_enumeracion_mem red consulta evidencia mem) =
           fst (inferencia_por_enumeracion red consulta (mem ! evidencia) mostrar archivo io)"
proof -
  have p: "prefix mem (snd (inferencia_por_enumeracion_mem red consulta evidencia mem))"
    by (rule prefix_inferencia_mem)
  then have 1: "snd (inferencia_por_enumeracion_mem red consulta evidencia mem) ! evidencia
           = mem ! evidencia"
    using assms by (rule prefix_nth)
  from p have 2:
    "take (length mem) (snd (inferencia_por_enumeracion_mem red consulta evidencia mem)) = mem"
    by (auto elim: prefixE)
  have 3: "fst (inferencia_por_enumeracion_mem red consulta evidencia mem) =
           fst (inferencia_por_enumeracion red consulta (mem ! evidencia) mostrar archivo io)"
    using assms by (rule inferencia_mem_valor)
  from 1 2 3 show ?thesis by blast
qed

theorem evidencia_intacta_witness:
  "snd (inferencia_por_enumeracion_mem red_ejemplo ''Edad'' 0 [[(''Fumador'', ''si'')]]) ! 0
     = [(''Fumador'', ''si'')]
   \<and> fst (inferencia_por_enumeracion_mem red_ejemplo ''Edad'' 0 [[(''Fumador'', ''si'')]]) =
       fst (inferencia_por_enumeracion red_ejemplo ''Edad'' [(''Fumador'', ''si'')] False None
              io_vacia)"
proof -
  have h: "(0::nat) < length [[(''Fumador'', ''si'')]]" by simp
  from evidencia_intacta [OF h, of red_ejemplo "''Edad''" False None io_vacia]
  show ?thesis by simp
qed

end
